theory Spec2Isabelle
  imports Complex_Main "HOL-Library.AList" "HOL-Library.Log_Nat"
begin

section \<open>Python values, exceptions and dictionaries\<close>

text \<open>
  The planner and the loader of \<^verbatim>\<open>bcdata\<close> are Python functions. Their integers are
  unbounded (\<^typ>\<open>int\<close>), their strings are \<^typ>\<open>string\<close>, an optional keyword
  argument is an \<^typ>\<open>'a option\<close> (\<^verbatim>\<open>None\<close> is \<^term>\<open>None\<close>), and every exception the
  code can raise is a value of \<open>py_error\<close>; a function that may raise returns
  \<open>py_error + 'a\<close> with the exception on the left.
\<close>

datatype transport_error = ConnectionError | Timeout

datatype py_error =
    IndexError
  | KeyError string
  | ValueError string
  | ZeroDivisionError
  | OverflowError
  | AttributeError
  | TypeError
  | HTTPError nat
  | RequestException transport_error
  | SystemExit py_error
  | ExternalError string

datatype pyval = Str string | Num int

text \<open>
  A \<^verbatim>\<open>dict\<close> keeps its keys in insertion order, and assigning to a key that is present
  replaces the value in place: this is \<^const>\<open>AList.update\<close> on an association list.
\<close>

type_synonym request = "(string \<times> pyval) list"

definition setitem :: "request \<Rightarrow> string \<Rightarrow> pyval \<Rightarrow> request" where
  "setitem d k v = AList.update k v d"

definition getitem :: "request \<Rightarrow> string \<Rightarrow> pyval option" where
  "getitem d k = map_of d k"

text \<open>Truthiness of an optional string (\<^verbatim>\<open>None\<close> and \<^verbatim>\<open>""\<close> are false), of an
  optional integer (\<^verbatim>\<open>None\<close> and \<^verbatim>\<open>0\<close> are false) and of an optional sequence
  (\<^verbatim>\<open>None\<close> and the empty sequence are false).\<close>

definition truthy_str :: "string option \<Rightarrow> bool" where
  "truthy_str s = (case s of None \<Rightarrow> False | Some t \<Rightarrow> t \<noteq> [])"

definition truthy_int :: "int option \<Rightarrow> bool" where
  "truthy_int c = (case c of None \<Rightarrow> False | Some k \<Rightarrow> k \<noteq> 0)"

definition truthy_seq :: "'a list option \<Rightarrow> bool" where
  "truthy_seq b = (case b of None \<Rightarrow> False | Some xs \<Rightarrow> xs \<noteq> [])"

text \<open>\<^verbatim>\<open>str.upper\<close> and \<^verbatim>\<open>str.lower\<close> on the ASCII letters (a \<^typ>\<open>char\<close> is a byte; the
  dataset, column and type names the code handles are ASCII).\<close>

fun translate :: "(char \<times> char) list \<Rightarrow> char \<Rightarrow> char" where
  "translate [] c = c"
| "translate ((a, b) # table) c = (if c = a then b else translate table c)"

definition upper_char :: "char \<Rightarrow> char" where
  "upper_char = translate (zip ''abcdefghijklmnopqrstuvwxyz'' ''ABCDEFGHIJKLMNOPQRSTUVWXYZ'')"

definition lower_char :: "char \<Rightarrow> char" where
  "lower_char = translate (zip ''ABCDEFGHIJKLMNOPQRSTUVWXYZ'' ''abcdefghijklmnopqrstuvwxyz'')"

definition upper :: "string \<Rightarrow> string" where
  "upper s = map upper_char s"

definition lower :: "string \<Rightarrow> string" where
  "lower s = map lower_char s"

section \<open>The feature service (\<^verbatim>\<open>wfs.py\<close>)\<close>

definition WFS_URL :: string where
  "WFS_URL = ''https://openmaps.gov.bc.ca/geo/pub/wfs''"

text \<open>
  What \<^verbatim>\<open>WFS.get_schema\<close> returns: the declared properties in their declared order
  (name and type) and the name of the geometry column.
\<close>

record wfs_schema =
  properties :: "(string \<times> string) list"
  geometry_column :: string

text \<open>
  The outcome of \<^verbatim>\<open>requests.get\<close>: a response with a status code and a body, or an
  exception of the transport (no connection, a timeout).
\<close>

datatype http_result = Response nat string | Failed transport_error

text \<open>
  The collaborators of the module, which are not code of the repository's files:
  the cached list of table names (\<^verbatim>\<open>list_tables()\<close> reads it from a file or from the
  service), the catalogue lookup \<^verbatim>\<open>bcdata.get_table_name\<close>, the HTTP client, the XML
  parser reading \<^verbatim>\<open>numberMatched\<close> from a response body, the schema of a feature type,
  and \<^verbatim>\<open>urllib.parse.urlencode\<close>.
\<close>

record wfs_env =
  list_tables :: "string list"
  get_table_name :: "string \<Rightarrow> py_error + string"
  requests_get :: "string \<Rightarrow> request \<Rightarrow> http_result"
  numberMatched :: "string \<Rightarrow> py_error + int"
  get_schema :: "string \<Rightarrow> py_error + wfs_schema"
  urlencode :: "request \<Rightarrow> string"

definition get_sortkey :: "string \<Rightarrow> wfs_schema \<Rightarrow> py_error + string" where
  "get_sortkey table schema =
     (let columns = map fst (properties schema) in
      if ''OBJECTID'' \<in> set columns then Inr ''OBJECTID''
      else if ''SEQUENCE_ID'' \<in> set columns then Inr ''SEQUENCE_ID''
      else (case columns of [] \<Rightarrow> Inl IndexError | c # _ \<Rightarrow> Inr c))"

definition validate_name :: "wfs_env \<Rightarrow> string \<Rightarrow> py_error + string" where
  "validate_name env dataset =
     (if upper dataset \<in> set (list_tables env) then Inr (upper dataset)
      else get_table_name env (upper dataset))"

text \<open>\<^verbatim>\<open>r.raise_for_status()\<close> raises \<^verbatim>\<open>HTTPError\<close> for a status from 400 to 599.\<close>

definition raise_for_status :: "nat \<Rightarrow> py_error + unit" where
  "raise_for_status status =
     (if 400 \<le> status \<and> status < 600 then Inl (HTTPError status) else Inr ())"

definition hits_payload :: "string \<Rightarrow> string option \<Rightarrow> request" where
  "hits_payload table query =
     (let payload =
        [(''service'', Str ''WFS''), (''version'', Str ''2.0.0''),
         (''request'', Str ''GetFeature''), (''typeName'', Str table),
         (''resultType'', Str ''hits''), (''outputFormat'', Str ''json'')]
      in if truthy_str query then setitem payload ''CQL_FILTER'' (Str (the query))
         else payload)"

text \<open>
  \<^verbatim>\<open>get_count\<close>: the \<^verbatim>\<open>try\<close> block holds the request and the status check, and its one
  handler catches \<^verbatim>\<open>requests.exceptions.HTTPError\<close> only, re-raising it as
  \<^verbatim>\<open>SystemExit\<close>. An exception of the transport is not an \<^verbatim>\<open>HTTPError\<close> and leaves the
  function as it is.
\<close>

definition get_count :: "wfs_env \<Rightarrow> string \<Rightarrow> string option \<Rightarrow> py_error + int" where
  "get_count env dataset query =
     (case validate_name env dataset of
        Inl e \<Rightarrow> Inl e
      | Inr table \<Rightarrow>
          (case requests_get env WFS_URL (hits_payload table query) of
             Failed t \<Rightarrow> Inl (RequestException t)
           | Response status text \<Rightarrow>
               (case raise_for_status status of
                  Inl err \<Rightarrow> Inl (SystemExit err)
                | Inr _ \<Rightarrow> numberMatched env text)))"

text \<open>
  \<^verbatim>\<open>define_requests\<close>, lines 158--159: the count the plan is made for. A \<^verbatim>\<open>count\<close> that
  is \<^verbatim>\<open>None\<close> or \<^verbatim>\<open>0\<close> is false for \<^verbatim>\<open>not count\<close>, and \<^verbatim>\<open>or\<close> does not evaluate its
  second operand then.
\<close>

definition effective_count :: "int option \<Rightarrow> int \<Rightarrow> int" where
  "effective_count count n = (if \<not> truthy_int count \<or> the count > n then n else the count)"

text \<open>
  Line 170, \<^verbatim>\<open>math.ceil(count / pagesize)\<close>. The operands are Python integers and \<^verbatim>\<open>/\<close> is
  true division: its result is a \<^verbatim>\<open>float\<close>, the IEEE 754 double nearest to the exact
  quotient (ties to the even significand), \<^verbatim>\<open>ZeroDivisionError\<close> for a zero divisor
  and \<^verbatim>\<open>OverflowError\<close> when the rounded quotient is not below \<open>2 ^ 1024\<close>.
  \<^verbatim>\<open>math.ceil\<close> then gives the least integer not below that double.

  A double in the binade \<open>[2 ^ e, 2 ^ (e + 1))\<close> is a multiple of \<open>2 ^ (e - 52)\<close>; below
  \<open>2 ^ (- 1022)\<close> the doubles are the multiples of \<open>2 ^ (- 1074)\<close>.
\<close>

definition round_half_even :: "real \<Rightarrow> int" where
  "round_half_even y =
     (let f = \<lfloor>y\<rfloor>; d = y - of_int f
      in if d < 1 / 2 then f else if 1 / 2 < d then f + 1 else if even f then f else f + 1)"

text \<open>The binade of the quotient of two positive integers, from their bit lengths.\<close>

definition binade :: "int \<Rightarrow> int \<Rightarrow> int" where
  "binade a b =
     (let k = int (floorlog 2 (nat a)) - int (floorlog 2 (nat b))
      in if 2 powi k \<le> real_of_int a / real_of_int b then k else k - 1)"

definition float_quotient :: "int \<Rightarrow> int \<Rightarrow> py_error + real" where
  "float_quotient a b =
     (let e = max (binade a b) (- 1022);
          ulp = 2 powi (e - 52);
          q = real_of_int (round_half_even (real_of_int a / real_of_int b / ulp)) * ulp
      in if 2 powi 1024 \<le> q then Inl OverflowError else Inr q)"

definition truediv :: "int \<Rightarrow> int \<Rightarrow> py_error + real" where
  "truediv a b =
     (if b = 0 then Inl ZeroDivisionError
      else if a = 0 then Inr 0
      else if (a < 0) = (b < 0) then float_quotient \<bar>a\<bar> \<bar>b\<bar>
      else map_sum id uminus (float_quotient \<bar>a\<bar> \<bar>b\<bar>))"

definition chunk_count :: "int \<Rightarrow> int \<Rightarrow> py_error + int" where
  "chunk_count count pagesize =
     (case truediv count pagesize of Inl e \<Rightarrow> Inl e | Inr q \<Rightarrow> Inr \<lceil>q\<rceil>)"

text \<open>Lines 179--188: the parameters every request starts from, and the sort key.\<close>

definition base_request :: "string \<Rightarrow> string \<Rightarrow> string option \<Rightarrow> request" where
  "base_request table crs sortby =
     (let request =
        [(''service'', Str ''WFS''), (''version'', Str ''2.0.0''),
         (''request'', Str ''GetFeature''), (''typeName'', Str table),
         (''outputFormat'', Str ''json''), (''SRSNAME'', Str crs)]
      in if truthy_str sortby then setitem request ''sortby'' (Str (upper (the sortby)))
         else request)"

text \<open>
  Lines 189--199: the filter. The bounds are a sequence of four coordinates, each given
  here as \<^verbatim>\<open>str\<close> prints it; unpacking a sequence of another length raises
  \<^verbatim>\<open>ValueError\<close>.
\<close>

definition bbox_query :: "string \<Rightarrow> string \<Rightarrow> string \<Rightarrow> string \<Rightarrow> string \<Rightarrow> string \<Rightarrow> string" where
  "bbox_query geom_column b0 b1 b2 b3 bounds_crs =
     ''bbox('' @ geom_column @ '', '' @ b0 @ '', '' @ b1 @ '', '' @ b2 @ '', '' @ b3
       @ '', '' @ [CHR 0x27] @ bounds_crs @ [CHR 0x27] @ '')''"

definition request_filter ::
  "string option \<Rightarrow> string list option \<Rightarrow> string \<Rightarrow> string \<Rightarrow> request \<Rightarrow> py_error + request" where
  "request_filter query bounds bounds_crs geom_column request0 =
     (let request =
        (if truthy_str query \<and> \<not> truthy_seq bounds
         then setitem request0 ''CQL_FILTER'' (Str (the query)) else request0)
      in if truthy_seq bounds then
           (case the bounds of
              [b0, b1, b2, b3] \<Rightarrow>
                (let bnd_query = bbox_query geom_column b0 b1 b2 b3 bounds_crs
                 in if \<not> truthy_str query
                    then Inr (setitem request ''CQL_FILTER'' (Str bnd_query))
                    else Inr (setitem request ''CQL_FILTER''
                                (Str (the query @ '' AND '' @ bnd_query))))
            | _ \<Rightarrow> Inl (ValueError ''unpack''))
         else Inr request)"

text \<open>Lines 200--207: the explicit count of a single request, or the window of a page.\<close>

definition request_window :: "int \<Rightarrow> int \<Rightarrow> int \<Rightarrow> int \<Rightarrow> request \<Rightarrow> request" where
  "request_window count pagesize chunks i request0 =
     (let request = (if chunks = 1 then setitem request0 ''count'' (Num count) else request0)
      in if chunks > 1 then
           (let request = setitem request ''startIndex'' (Num (i * pagesize))
            in if count < i * pagesize + pagesize
               then setitem request ''count'' (Num (count - i * pagesize))
               else setitem request ''count'' (Num pagesize))
         else request)"

definition chunk_request ::
  "string \<Rightarrow> string \<Rightarrow> string option \<Rightarrow> string option \<Rightarrow> string list option \<Rightarrow> string \<Rightarrow> string
     \<Rightarrow> int \<Rightarrow> int \<Rightarrow> int \<Rightarrow> int \<Rightarrow> py_error + request" where
  "chunk_request table crs sortby query bounds bounds_crs geom_column count pagesize chunks i =
     (case request_filter query bounds bounds_crs geom_column (base_request table crs sortby) of
        Inl e \<Rightarrow> Inl e
      | Inr request \<Rightarrow> Inr (request_window count pagesize chunks i request))"

text \<open>The \<^verbatim>\<open>for\<close> loop appending to \<^verbatim>\<open>urls\<close>; an exception in the body ends it.\<close>

fun for_each :: "(int \<Rightarrow> py_error + 'a) \<Rightarrow> int list \<Rightarrow> 'a list \<Rightarrow> py_error + 'a list" where
  "for_each body [] urls = Inr urls"
| "for_each body (i # rest) urls =
     (case body i of Inl e \<Rightarrow> Inl e | Inr u \<Rightarrow> for_each body rest (urls @ [u]))"

definition py_range :: "int \<Rightarrow> int list" where
  "py_range k = map int [0..<nat k]"

text \<open>
  \<^verbatim>\<open>define_requests\<close> up to the encoding of the URLs: the request dictionaries, one per
  chunk, in the order of the loop. (The source encodes each dictionary at the end of the
  loop body; the encoding raises nothing, so encoding the list afterwards gives the
  same URLs.)
\<close>

definition request_dicts ::
  "wfs_env \<Rightarrow> string \<Rightarrow> string option \<Rightarrow> string \<Rightarrow> string list option \<Rightarrow> string
     \<Rightarrow> int option \<Rightarrow> string option \<Rightarrow> int \<Rightarrow> py_error + request list" where
  "request_dicts env dataset query crs bounds bounds_crs count sortby pagesize =
     (case validate_name env dataset of
        Inl e \<Rightarrow> Inl e
      | Inr table \<Rightarrow>
     (case get_count env table query of
        Inl e \<Rightarrow> Inl e
      | Inr n \<Rightarrow>
     (let count = effective_count count n in
      case get_schema env (''pub:'' @ table) of
        Inl e \<Rightarrow> Inl e
      | Inr schema \<Rightarrow>
     (let geom_column = geometry_column schema in
      case chunk_count count pagesize of
        Inl e \<Rightarrow> Inl e
      | Inr chunks \<Rightarrow>
     (case (if chunks > 1 \<and> \<not> truthy_str sortby
            then map_sum id Some (get_sortkey table schema) else Inr sortby) of
        Inl e \<Rightarrow> Inl e
      | Inr sortby \<Rightarrow>
          for_each
            (chunk_request table crs sortby query bounds bounds_crs geom_column
               count pagesize chunks)
            (py_range chunks) [])))))"

definition request_url :: "wfs_env \<Rightarrow> request \<Rightarrow> string" where
  "request_url env request = WFS_URL @ ''?'' @ urlencode env request"

definition define_requests ::
  "wfs_env \<Rightarrow> string \<Rightarrow> string option \<Rightarrow> string \<Rightarrow> string list option \<Rightarrow> string
     \<Rightarrow> int option \<Rightarrow> string option \<Rightarrow> int \<Rightarrow> py_error + string list" where
  "define_requests env dataset query crs bounds bounds_crs count sortby pagesize =
     map_sum id (map (request_url env))
       (request_dicts env dataset query crs bounds bounds_crs count sortby pagesize)"

section \<open>The database wrapper (\<^verbatim>\<open>database.py\<close>)\<close>

text \<open>
  What the queries of the wrapper answer: the names of all schemas, and the tables of a
  schema. \<^verbatim>\<open>get_columns\<close> is called by the loader but is not a method of the class in
  \<^verbatim>\<open>database.py\<close>; the columns of a table are a field of the model.
\<close>

record database =
  schemata :: "string list"
  tables_in_schema :: "string \<Rightarrow> string list"
  get_columns :: "string \<Rightarrow> string \<Rightarrow> string list"

definition schemas :: "database \<Rightarrow> string list" where
  "schemas db = filter (\<lambda>s. take 3 s \<noteq> ''pg_'') (schemata db)"

definition tables :: "database \<Rightarrow> string list" where
  "tables db =
     foldl (\<lambda>tables schema. tables @ map (\<lambda>t. schema @ ''.'' @ t) (tables_in_schema db schema))
       [] (schemas db)"

section \<open>Geometries and frames\<close>

text \<open>
  The geometries of \<^verbatim>\<open>shapely\<close> that a GeoJSON response holds, by their coordinates; a
  position is the list of its ordinates.
\<close>

type_synonym position = "real list"

datatype geometry =
    Point position
  | LineString "position list"
  | Polygon "position list list"
  | MultiPoint "position list"
  | MultiLineString "position list list"
  | MultiPolygon "position list list list"
  | GeometryCollection "geometry list"

fun geom_type :: "geometry \<Rightarrow> string" where
  "geom_type (Point c) = ''Point''"
| "geom_type (LineString cs) = ''LineString''"
| "geom_type (Polygon rings) = ''Polygon''"
| "geom_type (MultiPoint cs) = ''MultiPoint''"
| "geom_type (MultiLineString ls) = ''MultiLineString''"
| "geom_type (MultiPolygon ps) = ''MultiPolygon''"
| "geom_type (GeometryCollection gs) = ''GeometryCollection''"

fun positions :: "geometry \<Rightarrow> position list" where
  "positions (Point c) = [c]"
| "positions (LineString cs) = cs"
| "positions (Polygon rings) = concat rings"
| "positions (MultiPoint cs) = cs"
| "positions (MultiLineString ls) = concat ls"
| "positions (MultiPolygon ps) = concat (concat ps)"
| "positions (GeometryCollection gs) = concat (map positions gs)"

text \<open>\<^verbatim>\<open>has_z\<close>: the geometry carries a third ordinate.\<close>

definition has_z :: "geometry \<Rightarrow> bool" where
  "has_z g = list_ex (\<lambda>c. length c = 3) (positions g)"

text \<open>
  A row of a \<^verbatim>\<open>GeoDataFrame\<close>: its attribute values by column name and its geometry,
  which is \<^verbatim>\<open>None\<close> for a feature without one. A frame is its attribute columns and
  its rows.
\<close>

record row =
  cells :: "(string \<times> pyval) list"
  geom :: "geometry option"

record dataframe =
  columns :: "string list"
  rows :: "row list"

text \<open>
  Lines 171--184 of \<^verbatim>\<open>bc2pg.py\<close>: the three list comprehensions over the geometry
  column, each testing \<^verbatim>\<open>isinstance\<close> of the value (which is false for \<^verbatim>\<open>None\<close>).
\<close>

definition to_multipoint :: "geometry option \<Rightarrow> geometry option" where
  "to_multipoint feature =
     (case feature of Some (Point c) \<Rightarrow> Some (MultiPoint [c]) | _ \<Rightarrow> feature)"

definition to_multilinestring :: "geometry option \<Rightarrow> geometry option" where
  "to_multilinestring feature =
     (case feature of Some (LineString cs) \<Rightarrow> Some (MultiLineString [cs]) | _ \<Rightarrow> feature)"

definition to_multipolygon :: "geometry option \<Rightarrow> geometry option" where
  "to_multipolygon feature =
     (case feature of Some (Polygon rings) \<Rightarrow> Some (MultiPolygon [rings]) | _ \<Rightarrow> feature)"

text \<open>
  \<^verbatim>\<open>df["geom"] = [f(feature) for feature in df["geom"]]\<close>: the geometry of every row is
  replaced by its image; the other columns stay.
\<close>

definition assign_geom :: "(geometry option \<Rightarrow> geometry option) \<Rightarrow> dataframe \<Rightarrow> dataframe" where
  "assign_geom f df = df\<lparr>rows := map (\<lambda>r. r\<lparr>geom := f (geom r)\<rparr>) (rows df)\<rparr>"

definition normalize_frame :: "dataframe \<Rightarrow> dataframe" where
  "normalize_frame df =
     assign_geom to_multipolygon (assign_geom to_multilinestring (assign_geom to_multipoint df))"

text \<open>Lines 157--167: the columns in lower case, the columns of the target table, and
  the rows with and without a geometry. Selecting a column the frame does not have
  raises \<^verbatim>\<open>KeyError\<close>, as does reading \<^verbatim>\<open>df["geom"]\<close> when \<^verbatim>\<open>geom\<close> was not selected.\<close>

definition lower_columns :: "dataframe \<Rightarrow> dataframe" where
  "lower_columns df =
     \<lparr> columns = map lower (columns df),
       rows = map (\<lambda>r. r\<lparr>cells := map (\<lambda>(k, v). (lower k, v)) (cells r)\<rparr>) (rows df) \<rparr>"

definition select_columns :: "string list \<Rightarrow> dataframe \<Rightarrow> py_error + dataframe" where
  "select_columns column_names df =
     (case filter (\<lambda>c. c \<notin> set (columns df) \<and> c \<noteq> ''geom'') column_names of
        c # _ \<Rightarrow> Inl (KeyError c)
      | [] \<Rightarrow>
          if ''geom'' \<notin> set column_names then Inl (KeyError ''geom'')
          else Inr \<lparr> columns = filter (\<lambda>c. c \<noteq> ''geom'') column_names,
                     rows = map (\<lambda>r. r\<lparr>cells := filter (\<lambda>(k, v). k \<in> set column_names) (cells r)\<rparr>)
                              (rows df) \<rparr>)"

definition isna :: "dataframe \<Rightarrow> dataframe" where
  "isna df = df\<lparr>rows := filter (\<lambda>r. geom r = None) (rows df)\<rparr>"

definition notna :: "dataframe \<Rightarrow> dataframe" where
  "notna df = df\<lparr>rows := filter (\<lambda>r. geom r \<noteq> None) (rows df)\<rparr>"

section \<open>The loader (\<^verbatim>\<open>bc2pg.py\<close>)\<close>

definition SUPPORTED_TYPES :: "string list" where
  "SUPPORTED_TYPES =
     [''POINT'', ''POINTZ'', ''MULTIPOINT'', ''MULTIPOINTZ'', ''LINESTRING'', ''LINESTRINGZ'',
      ''MULTILINESTRING'', ''MULTILINESTRINGZ'', ''POLYGON'', ''MULTIPOLYGON'']"

text \<open>The definition of a table in the catalogue: its columns and its comments.\<close>

record column_def =
  column_name :: string
  data_type :: string

record table_definition =
  td_schema :: "column_def list"
  comments :: string

text \<open>
  The collaborators of the loader, which are not code of the repository's files: the
  feature service, the connection to the database (\<^verbatim>\<open>psycopg2.connect\<close>), the catalogue
  (\<^verbatim>\<open>bcdata.get_table_definition\<close>), the download of one request as a frame
  (\<^verbatim>\<open>WFS.make_requests\<close>) and the creation of the table (\<^verbatim>\<open>db.define_table\<close>, which
  answers with the names of the columns of the table). Constructing the service
  interface (\<^verbatim>\<open>BCWFS()\<close>) is taken to do nothing else.
\<close>

record loader_env =
  wfs :: wfs_env
  connect :: "string \<Rightarrow> py_error + database"
  get_table_definition :: "string \<Rightarrow> py_error + table_definition"
  make_requests :: "string \<Rightarrow> py_error + dataframe"
  define_table ::
    "string \<Rightarrow> string \<Rightarrow> column_def list \<Rightarrow> string \<Rightarrow> string \<Rightarrow> string option \<Rightarrow> bool
       \<Rightarrow> py_error + string list"

text \<open>
  What the loader does to the world, in the order it does it: it connects, has the
  requests planned (which asks the service for the count and the schema), lists the
  tables, reads the columns of a table, asks the catalogue, downloads the features of a
  request, creates a table, appends rows with and without geometry, and runs SQL.
\<close>

datatype event =
    Connect string
  | PlanRequests string
  | ListTables
  | GetColumns string string
  | GetTableDefinition string
  | MakeRequests string
  | DefineTable string string string
  | ToPostgis string string "row list"
  | ToSql string string "row list"
  | Execute string

text \<open>
  A step of the loader takes the events so far and gives the events after it and either
  the exception it raised or its value.
\<close>

type_synonym 'a io = "event list \<Rightarrow> event list \<times> (py_error + 'a)"

definition ret :: "'a \<Rightarrow> 'a io" where
  "ret x = (\<lambda>trace. (trace, Inr x))"

definition raise :: "py_error \<Rightarrow> 'a io" where
  "raise e = (\<lambda>trace. (trace, Inl e))"

definition lift :: "py_error + 'a \<Rightarrow> 'a io" where
  "lift r = (\<lambda>trace. (trace, r))"

definition emit :: "event \<Rightarrow> unit io" where
  "emit ev = (\<lambda>trace. (trace @ [ev], Inr ()))"

definition bind :: "'a io \<Rightarrow> ('a \<Rightarrow> 'b io) \<Rightarrow> 'b io" where
  "bind m f =
     (\<lambda>trace. case m trace of
        (trace', Inl e) \<Rightarrow> (trace', Inl e)
      | (trace', Inr x) \<Rightarrow> f x trace')"

text \<open>\<^verbatim>\<open>str.split(".")\<close>, and the unpacking of its result into two names.\<close>

fun split_on :: "char \<Rightarrow> string \<Rightarrow> string list" where
  "split_on sep [] = [[]]"
| "split_on sep (c # cs) =
     (if c = sep then [] # split_on sep cs
      else (case split_on sep cs of [] \<Rightarrow> [[c]] | part # parts \<Rightarrow> (c # part) # parts))"

definition unpack2 :: "'a list \<Rightarrow> py_error + 'a \<times> 'a" where
  "unpack2 xs = (case xs of [a, b] \<Rightarrow> Inr (a, b) | _ \<Rightarrow> Inl (ValueError ''unpack''))"

text \<open>Lines 51--55: the schema and the table of the target, in lower case.\<close>

definition target_names :: "string \<Rightarrow> string option \<Rightarrow> string option \<Rightarrow> py_error + string \<times> string" where
  "target_names dataset schema table =
     (case unpack2 (split_on CHR ''.'' (lower dataset)) of
        Inl e \<Rightarrow> Inl e
      | Inr (schema_name, table_name) \<Rightarrow>
          Inr (if truthy_str schema then lower (the schema) else schema_name,
               if truthy_str table then lower (the table) else table_name))"

text \<open>
  Lines 98--102 (and 109--113): the type of the first row of a frame, which is \<^verbatim>\<open>None\<close>
  for a row without geometry, with \<^verbatim>\<open>Z\<close> appended when \<^verbatim>\<open>has_z\<close> of the first row holds.
  \<^verbatim>\<open>unique()[0]\<close> is the value of the first row, and raises on a frame without rows.
\<close>

definition probe :: "dataframe \<Rightarrow> py_error + string option" where
  "probe df =
     (case rows df of
        [] \<Rightarrow> Inl IndexError
      | r # _ \<Rightarrow>
          (let geometry_type = map_option geom_type (geom r);
               z = (case geom r of None \<Rightarrow> False | Some g \<Rightarrow> has_z g)
           in if z then (case geometry_type of
                           None \<Rightarrow> Inl TypeError
                         | Some t \<Rightarrow> Inr (Some (t @ ''Z'')))
              else Inr geometry_type))"

text \<open>Lines 94--115: the geometry type, from the first request and, if that gives
  none, from the last one when it is another request.\<close>

definition resolve_geometry_type ::
  "loader_env \<Rightarrow> string list \<Rightarrow> string option \<Rightarrow> (string option \<times> dataframe option) io" where
  "resolve_geometry_type env urls geometry_type =
     bind (if \<not> truthy_str geometry_type then
             (case urls of
                [] \<Rightarrow> raise IndexError
              | url # _ \<Rightarrow>
                  bind (emit (MakeRequests url)) (\<lambda>_.
                  bind (lift (make_requests env url)) (\<lambda>df.
                  bind (lift (probe df)) (\<lambda>geometry_type.
                  ret (geometry_type, Some df)))))
           else ret (geometry_type, None)) (\<lambda>(geometry_type, df).
     bind (if \<not> truthy_str geometry_type then
             (case urls of
                [] \<Rightarrow> raise IndexError
              | url # _ \<Rightarrow>
                  if \<not> last urls = url then
                    bind (emit (MakeRequests (last urls))) (\<lambda>_.
                    bind (lift (make_requests env (last urls))) (\<lambda>df_temp.
                    lift (probe df_temp)))
                  else ret geometry_type)
           else ret geometry_type) (\<lambda>geometry_type.
     ret (geometry_type, df)))"

text \<open>Lines 75--81: appending, the table must exist; its columns are read then.\<close>

definition append_target ::
  "database \<Rightarrow> string \<Rightarrow> string \<Rightarrow> (string list \<times> dataframe option) io" where
  "append_target db schema_name table_name =
     bind (emit ListTables) (\<lambda>_.
     if schema_name @ ''.'' @ table_name \<notin> set (tables db) then
       raise (ValueError (schema_name @ ''.'' @ table_name
                            @ '' does not exist, nothing to append to''))
     else
       bind (emit (GetColumns schema_name table_name)) (\<lambda>_.
       ret (get_columns db schema_name table_name, None)))"

text \<open>Lines 84--139: not appending, the table is defined from the catalogue and
  created.\<close>

definition create_target ::
  "loader_env \<Rightarrow> string \<Rightarrow> string \<Rightarrow> string \<Rightarrow> string list \<Rightarrow> string option \<Rightarrow> string option
     \<Rightarrow> bool \<Rightarrow> (string list \<times> dataframe option) io" where
  "create_target env dataset schema_name table_name urls geometry_type primary_key append_mode =
     bind (emit (GetTableDefinition dataset)) (\<lambda>_.
     bind (lift (get_table_definition env dataset)) (\<lambda>table_definition.
     if td_schema table_definition = [] then
       raise (ValueError ''Cannot create table, schema details not found via bcdc api'')
     else
       bind (resolve_geometry_type env urls geometry_type) (\<lambda>(geometry_type, df).
       (case geometry_type of
          None \<Rightarrow> raise AttributeError
        | Some t \<Rightarrow>
            (let geometry_type = upper t in
             if geometry_type \<notin> set SUPPORTED_TYPES then
               raise (ValueError ''Geometry type {geometry_type} is not supported'')
             else if truthy_str primary_key
                     \<and> upper (the primary_key)
                          \<notin> set (map (\<lambda>c. upper (column_name c)) (td_schema table_definition)) then
               raise (ValueError
                 ''Column {primary_key} specified as primary_key does not exist in source'')
             else
               bind (emit (DefineTable schema_name table_name geometry_type)) (\<lambda>_.
               bind (lift (define_table env schema_name table_name (td_schema table_definition)
                             geometry_type (comments table_definition) primary_key append_mode))
                 (\<lambda>column_names.
               ret (column_names, df))))))))"

text \<open>Lines 150--196: the body of the loop over the requests, and the loop. The frame
  of the first request is the one the geometry type was read from, if it was.\<close>

definition load_chunk ::
  "loader_env \<Rightarrow> string \<Rightarrow> string \<Rightarrow> string list \<Rightarrow> dataframe option \<Rightarrow> string \<Rightarrow> unit io" where
  "load_chunk env schema_name table_name column_names df url =
     bind (case df of
             None \<Rightarrow> bind (emit (MakeRequests url)) (\<lambda>_. lift (make_requests env url))
           | Some d \<Rightarrow> ret d) (\<lambda>df.
     bind (lift (select_columns column_names (lower_columns df))) (\<lambda>df.
     bind (emit (ToPostgis schema_name table_name (rows (normalize_frame (notna df))))) (\<lambda>_.
     emit (ToSql schema_name table_name (rows (isna df))))))"

fun load_chunks ::
  "loader_env \<Rightarrow> string \<Rightarrow> string \<Rightarrow> string list \<Rightarrow> dataframe option \<Rightarrow> string list \<Rightarrow> unit io" where
  "load_chunks env schema_name table_name column_names df [] trace = (trace, Inr ())"
| "load_chunks env schema_name table_name column_names df (url # urls) trace =
     (case load_chunk env schema_name table_name column_names df url trace of
        (trace', Inl e) \<Rightarrow> (trace', Inl e)
      | (trace', Inr _) \<Rightarrow> load_chunks env schema_name table_name column_names None urls trace')"

definition log_download :: "string \<Rightarrow> unit io" where
  "log_download name =
     bind (emit (Execute ''CREATE SCHEMA IF NOT EXISTS bcdata; CREATE TABLE IF NOT EXISTS bcdata.log''))
       (\<lambda>_. emit (Execute (''INSERT INTO bcdata.log '' @ name)))"

definition bc2pg ::
  "loader_env \<Rightarrow> string \<Rightarrow> string \<Rightarrow> string option \<Rightarrow> string option \<Rightarrow> string option
     \<Rightarrow> string option \<Rightarrow> int option \<Rightarrow> string option \<Rightarrow> string option \<Rightarrow> bool \<Rightarrow> bool \<Rightarrow> bool
     \<Rightarrow> event list \<times> (py_error + string)" where
  "bc2pg env dataset0 db_url table schema geometry_type query count sortby primary_key
       timestamp schema_only append_mode =
     bind (lift (validate_name (wfs env) dataset0)) (\<lambda>dataset.
     bind (lift (target_names dataset schema table)) (\<lambda>(schema_name, table_name).
     bind (emit (Connect db_url)) (\<lambda>_.
     bind (lift (connect env db_url)) (\<lambda>db.
     bind (emit (PlanRequests dataset)) (\<lambda>_.
     bind (lift (define_requests (wfs env) dataset query ''epsg:3005'' None ''EPSG:3005''
                   count sortby 10000)) (\<lambda>urls.
     bind (if append_mode then append_target db schema_name table_name
           else create_target env dataset schema_name table_name urls geometry_type
                  primary_key append_mode) (\<lambda>(column_names, df).
     bind (if truthy_str sortby \<and> lower (the sortby) \<notin> set column_names then
             raise (ValueError (''Specified sortby column '' @ the sortby
                                  @ '' is not present in '' @ dataset))
           else ret ()) (\<lambda>_.
     bind (if \<not> schema_only then
             bind (load_chunks env schema_name table_name column_names df urls) (\<lambda>_.
             if timestamp then log_download (schema_name @ ''.'' @ table_name) else ret ())
           else ret ()) (\<lambda>_.
     ret (schema_name @ ''.'' @ table_name)))))))))) []"

section \<open>Reading a plan\<close>

text \<open>
  The pagination window of a request: the index of its first feature (the service starts
  at the first feature, index 0, when \<^verbatim>\<open>startIndex\<close> is absent) and its \<^verbatim>\<open>count\<close>.
\<close>

definition start_index :: "request \<Rightarrow> int" where
  "start_index r = (case getitem r ''startIndex'' of Some (Num s) \<Rightarrow> s | _ \<Rightarrow> 0)"

definition window :: "request \<Rightarrow> (int \<times> int) option" where
  "window r = (case getitem r ''count'' of Some (Num c) \<Rightarrow> Some (start_index r, c) | _ \<Rightarrow> None)"

text \<open>
  \<open>tiles a ws b\<close>: the windows \<open>ws\<close>, in their order, cut the range from \<open>a\<close> up to
  \<open>b\<close> into consecutive pieces: each window starts where the one before it ends, the
  first at \<open>a\<close>, each holds at least one index, and the last ends at \<open>b\<close>.
\<close>

fun tiles :: "int \<Rightarrow> (int \<times> int) list \<Rightarrow> int \<Rightarrow> bool" where
  "tiles a [] b = (a = b)"
| "tiles a ((s, c) # ws) b = (s = a \<and> 0 < c \<and> tiles (a + c) ws b)"

text \<open>
  Bounds that the loop can unpack: none (or an empty sequence, which is false for
  \<^verbatim>\<open>if bounds\<close>), or four coordinates.
\<close>

definition bounds_wellformed :: "string list option \<Rightarrow> bool" where
  "bounds_wellformed bounds = (\<not> truthy_seq bounds \<or> length (the bounds) = 4)"

text \<open>A step that only adds events: what happened before it stays as it was.\<close>

definition extends :: "'a io \<Rightarrow> bool" where
  "extends m = (\<forall>trace. \<exists>events. fst (m trace) = trace @ events)"

section \<open>An example service\<close>

text \<open>
  A service that knows one table, \<^verbatim>\<open>WHSE.T\<close>, with the columns \<^verbatim>\<open>FEATURE_ID\<close> and
  \<^verbatim>\<open>NAME\<close> and the geometry column \<^verbatim>\<open>SHAPE\<close>, and that answers every count request
  with \<open>n\<close> features.
\<close>

definition example_schema :: wfs_schema where
  "example_schema =
     \<lparr> properties = [(''FEATURE_ID'', ''int''), (''NAME'', ''string'')],
       geometry_column = ''SHAPE'' \<rparr>"

definition example_env :: "int \<Rightarrow> wfs_env" where
  "example_env n =
     \<lparr> list_tables = [''WHSE.T''],
       get_table_name = (\<lambda>name. Inl (ValueError name)),
       requests_get = (\<lambda>url payload. Response 200 []),
       numberMatched = (\<lambda>text. Inr n),
       get_schema = (\<lambda>name. Inr example_schema),
       urlencode = (\<lambda>request. concat (map fst request)) \<rparr>"

text \<open>A frame with a point, a feature without geometry, a multi-point, a line and a polygon.\<close>

definition example_frame :: dataframe where
  "example_frame =
     \<lparr> columns = [''NAME''],
       rows = [\<lparr> cells = [(''NAME'', Str ''a'')], geom = Some (Point [1, 2]) \<rparr>,
               \<lparr> cells = [(''NAME'', Str ''b'')], geom = None \<rparr>,
               \<lparr> cells = [(''NAME'', Str ''c'')], geom = Some (MultiPoint [[3, 4], [5, 6]]) \<rparr>,
               \<lparr> cells = [(''NAME'', Str ''d'')], geom = Some (LineString [[0, 0], [1, 1]]) \<rparr>,
               \<lparr> cells = [(''NAME'', Str ''e'')], geom = Some (Polygon [[[0, 0], [1, 0], [1, 1], [0, 0]]]) \<rparr>] \<rparr>"

text \<open>The example service with every HTTP request ending in the given outcome.\<close>

definition outage_env :: "http_result \<Rightarrow> wfs_env" where
  "outage_env result = (example_env 0)\<lparr>requests_get := (\<lambda>url payload. result)\<rparr>"

text \<open>
  A database with the table \<^verbatim>\<open>whse.t\<close>, and a loader on the example service whose
  catalogue knows the two columns, whose every download is the given frame and whose
  new tables have the columns of the catalogue and \<^verbatim>\<open>geom\<close>.
\<close>

definition example_db :: database where
  "example_db =
     \<lparr> schemata = [''pg_catalog'', ''public'', ''whse''],
       tables_in_schema = (\<lambda>schema. if schema = ''whse'' then [''t''] else []),
       get_columns = (\<lambda>schema table. [''feature_id'', ''name'', ''geom'']) \<rparr>"

definition example_loader :: "int \<Rightarrow> dataframe \<Rightarrow> loader_env" where
  "example_loader n df =
     \<lparr> wfs = example_env n,
       connect = (\<lambda>url. Inr example_db),
       get_table_definition =
         (\<lambda>name. Inr \<lparr> td_schema = [\<lparr> column_name = ''FEATURE_ID'', data_type = ''NUMBER'' \<rparr>,
                                      \<lparr> column_name = ''NAME'', data_type = ''VARCHAR2'' \<rparr>],
                        comments = [] \<rparr>),
       make_requests = (\<lambda>url. Inr df),
       define_table =
         (\<lambda>schema_name table_name columns geometry_type comments primary_key append_mode.
            Inr [''feature_id'', ''name'', ''geom'']) \<rparr>"

text \<open>A download whose first feature is a point in the plane and whose second feature
  is a point with a height.\<close>

definition mixed_frame :: dataframe where
  "mixed_frame =
     \<lparr> columns = [''FEATURE_ID'', ''NAME''],
       rows = [\<lparr> cells = [(''FEATURE_ID'', Num 1), (''NAME'', Str ''a'')],
                 geom = Some (Point [0, 0]) \<rparr>,
               \<lparr> cells = [(''FEATURE_ID'', Num 2), (''NAME'', Str ''b'')],
                 geom = Some (Point [0, 0, 5]) \<rparr>] \<rparr>"

text \<open>A download of polygons with heights.\<close>

definition polygonz_frame :: dataframe where
  "polygonz_frame =
     \<lparr> columns = [''FEATURE_ID'', ''NAME''],
       rows = [\<lparr> cells = [(''FEATURE_ID'', Num 1), (''NAME'', Str ''a'')],
                 geom = Some (Polygon [[[0, 0, 1], [1, 0, 1], [1, 1, 1], [0, 0, 1]]]) \<rparr>] \<rparr>"

text \<open>
  The example service over another schema: one whose first column is \<^verbatim>\<open>fid\<close>, and one
  whose first column has the empty name.
\<close>

definition schema_env :: "wfs_schema \<Rightarrow> int \<Rightarrow> wfs_env" where
  "schema_env schema n = (example_env n)\<lparr>get_schema := (\<lambda>name. Inr schema)\<rparr>"

definition lowercase_schema :: wfs_schema where
  "lowercase_schema =
     \<lparr> properties = [(''fid'', ''int''), (''NAME'', ''string'')],
       geometry_column = ''SHAPE'' \<rparr>"

definition unnamed_schema :: wfs_schema where
  "unnamed_schema =
     \<lparr> properties = [([], ''int''), (''NAME'', ''string'')],
       geometry_column = ''SHAPE'' \<rparr>"

text \<open>The example loader on a service whose every HTTP request ends in the given
  outcome.\<close>

definition outage_loader :: "http_result \<Rightarrow> loader_env" where
  "outage_loader result = (example_loader 0 example_frame)\<lparr>wfs := outage_env result\<rparr>"

section \<open>Dictionaries and the loop\<close>

lemma getitem_setitem: "getitem (setitem d k v) k' = (if k' = k then Some v else getitem d k')"
  by (simp add: getitem_def setitem_def update_conv')

lemma keys_setitem: "fst ` set (setitem d k v) = insert k (fst ` set d)"
  unfolding setitem_def using dom_update[of k v d] by (simp add: dom_map_of_conv_image_fst)

lemma getitem_None_iff: "getitem d k = None \<longleftrightarrow> k \<notin> fst ` set d"
  by (simp add: getitem_def map_of_eq_None_iff)

lemma for_each_const:
  assumes "\<And>i. body i = (case F of Inl e \<Rightarrow> Inl e | Inr r \<Rightarrow> Inr (g r i))"
  shows "for_each body js acc =
     (if js = [] then Inr acc
      else case F of Inl e \<Rightarrow> Inl e | Inr r \<Rightarrow> Inr (acc @ map (g r) js))"
proof (induction js arbitrary: acc)
  case Nil
  show ?case by simp
next
  case (Cons j js)
  have b: "body j = (case F of Inl e \<Rightarrow> Inl e | Inr r \<Rightarrow> Inr (g r j))"
    by (rule assms)
  show ?case
    by (cases F) (simp_all add: b Cons.IH)
qed

lemma for_each_const_Nil:
  assumes "\<And>i. body i = (case F of Inl e \<Rightarrow> Inl e | Inr r \<Rightarrow> Inr (g r i))"
  shows "for_each body js [] =
     (if js = [] then Inr []
      else case F of Inl e \<Rightarrow> Inl e | Inr r \<Rightarrow> Inr (map (g r) js))"
  using for_each_const [where body = body and F = F and g = g and js = js and acc = "[]", OF assms]
  by (cases F) simp_all

lemma tiles_sum: "tiles a ws b \<Longrightarrow> sum_list (map snd ws) = b - a"
  by (induction a ws b rule: tiles.induct) auto

lemma tiles_le: "tiles a ws b \<Longrightarrow> a \<le> b"
  by (induction a ws b rule: tiles.induct) auto

lemma tiles_cover: "tiles a ws b \<Longrightarrow> (\<Union>(s, c) \<in> set ws. {s..<s + c}) = {a..<b}"
proof (induction a ws b rule: tiles.induct)
  case (1 a b)
  then show ?case by simp
next
  case (2 a s c ws b)
  then have "a + c \<le> b" "0 < c" "s = a" by (auto dest: tiles_le)
  with 2 show ?case by auto
qed

lemma tiles_starts: "tiles a ws b \<Longrightarrow> k < length ws \<Longrightarrow>
   fst (ws ! k) = a + sum_list (map snd (take k ws)) \<and> 0 < snd (ws ! k)"
proof (induction a ws b arbitrary: k rule: tiles.induct)
  case (1 a b)
  then show ?case by simp
next
  case (2 a s c ws b)
  then show ?case by (cases k) auto
qed

section \<open>The quotient as a double\<close>

text \<open>
  Rounding to the nearest integer stays on the right side of every integer, and passes
  one that lies more than a half below.
\<close>

lemma round_half_even_le: "y \<le> of_int K \<Longrightarrow> round_half_even y \<le> K"
proof -
  assume y: "y \<le> of_int K"
  then have f: "\<lfloor>y\<rfloor> \<le> K" by (simp add: floor_le_iff)
  have "\<lfloor>y\<rfloor> + 1 \<le> K" if "0 < y - of_int \<lfloor>y\<rfloor>"
  proof -
    from that have "of_int \<lfloor>y\<rfloor> < y" by simp
    with y have "real_of_int \<lfloor>y\<rfloor> < of_int K" by linarith
    then show ?thesis by simp
  qed
  with f show ?thesis
    unfolding round_half_even_def Let_def by (auto split: if_splits) 
qed

lemma round_half_even_ge: "of_int n \<le> y \<Longrightarrow> n \<le> round_half_even y"
proof -
  assume "of_int n \<le> y"
  then have "n \<le> \<lfloor>y\<rfloor>" by (simp add: le_floor_iff)
  then show ?thesis
    unfolding round_half_even_def Let_def by auto
qed

lemma round_half_even_gt_half: "of_int n + 1 / 2 < y \<Longrightarrow> n + 1 \<le> round_half_even y"
proof -
  assume y: "of_int n + 1 / 2 < y"
  then have n: "n \<le> \<lfloor>y\<rfloor>" by (simp add: le_floor_iff)
  show ?thesis
  proof (cases "n + 1 \<le> \<lfloor>y\<rfloor>")
    case True
    with round_half_even_ge [of "\<lfloor>y\<rfloor>" y] show ?thesis by simp
  next
    case False
    with n have "\<lfloor>y\<rfloor> = n" by simp
    with y show ?thesis
      unfolding round_half_even_def Let_def by auto
  qed
qed

lemma two_powi_less_iff: "(2::real) powi i < 2 powi j \<longleftrightarrow> i < j"
proof
  assume "(2::real) powi i < 2 powi j"
  show "i < j"
  proof (rule ccontr)
    assume "\<not> i < j"
    then have "j \<le> i" by simp
    then have "(2::real) powi j \<le> 2 powi i" by (intro power_int_increasing) simp_all
    with \<open>(2::real) powi i < 2 powi j\<close> show False by simp
  qed
next
  assume "i < j"
  then show "(2::real) powi i < 2 powi j" by (intro power_int_strict_increasing) simp_all
qed

lemma two_powi_le_iff: "(2::real) powi i \<le> 2 powi j \<longleftrightarrow> i \<le> j"
  using two_powi_less_iff [of j i] by (simp add: not_less [symmetric])

lemma binade_bounds:
  assumes "0 < a" "0 < b"
  shows "2 powi (binade a b) \<le> real_of_int a / real_of_int b"
    and "real_of_int a / real_of_int b < 2 powi (binade a b + 1)"
proof -
  define La where "La = floorlog 2 (nat a)"
  define Lb where "Lb = floorlog 2 (nat b)"
  define k where "k = int La - int Lb"
  from floorlog_bounds [of "nat a" 2] assms(1)
  have a: "2 ^ (La - 1) \<le> nat a" "nat a < 2 ^ La" by (simp_all add: La_def)
  from floorlog_bounds [of "nat b" 2] assms(2)
  have b: "2 ^ (Lb - 1) \<le> nat b" "nat b < 2 ^ Lb" by (simp_all add: Lb_def)
  have La: "0 < La" using assms(1) by (simp add: La_def floorlog_def)
  have Lb: "0 < Lb" using assms(2) by (simp add: Lb_def floorlog_def)
  have ra: "(2::real) powi (int La - 1) \<le> of_int a" "real_of_int a < 2 powi (int La)"
  proof -
    from a(1) have "real (2 ^ (La - 1)) \<le> real (nat a)" by (simp only: of_nat_le_iff)
    moreover have "int (La - 1) = int La - 1" using La by simp
    ultimately show "(2::real) powi (int La - 1) \<le> of_int a"
      using assms(1) by (metis of_nat_nat of_nat_numeral of_nat_power power_int_of_nat order_less_imp_le)
    from a(2) have "real (nat a) < real (2 ^ La)" by (simp only: of_nat_less_iff)
    then show "real_of_int a < 2 powi (int La)" using assms(1) by simp
  qed
  have rb: "(2::real) powi (int Lb - 1) \<le> of_int b" "real_of_int b < 2 powi (int Lb)"
  proof -
    from b(1) have "real (2 ^ (Lb - 1)) \<le> real (nat b)" by (simp only: of_nat_le_iff)
    moreover have "int (Lb - 1) = int Lb - 1" using Lb by simp
    ultimately show "(2::real) powi (int Lb - 1) \<le> of_int b"
      using assms(2) by (metis of_nat_nat of_nat_numeral of_nat_power power_int_of_nat order_less_imp_le)
    from b(2) have "real (nat b) < real (2 ^ Lb)" by (simp only: of_nat_less_iff)
    then show "real_of_int b < 2 powi (int Lb)" using assms(2) by simp
  qed
  have bpos: "0 < real_of_int b" using assms(2) by simp
  have lo: "(2::real) powi (k - 1) \<le> of_int a / of_int b"
  proof -
    have e: "(2::real) powi (k - 1) * 2 powi (int Lb) = 2 powi (int La - 1)"
    proof -
      have "(2::real) powi (k - 1) * 2 powi (int Lb) = 2 powi ((k - 1) + int Lb)"
        by (subst power_int_add) simp_all
      moreover have "(k - 1) + int Lb = int La - 1" by (simp add: k_def)
      ultimately show ?thesis by (simp only:)
    qed
    have "(2::real) powi (k - 1) * of_int b \<le> 2 powi (k - 1) * 2 powi (int Lb)"
      using rb(2) by (intro mult_left_mono) simp_all
    with e ra(1) have "(2::real) powi (k - 1) * of_int b \<le> of_int a" by linarith
    then show ?thesis using bpos by (simp add: pos_le_divide_eq)
  qed
  have hi: "real_of_int a / of_int b < 2 powi (k + 1)"
  proof -
    have e: "(2::real) powi (k + 1) * 2 powi (int Lb - 1) = 2 powi (int La)"
    proof -
      have "(2::real) powi (k + 1) * 2 powi (int Lb - 1) = 2 powi ((k + 1) + (int Lb - 1))"
        by (subst power_int_add) simp_all
      moreover have "(k + 1) + (int Lb - 1) = int La" by (simp add: k_def)
      ultimately show ?thesis by (simp only:)
    qed
    have "(2::real) powi (k + 1) * 2 powi (int Lb - 1) \<le> 2 powi (k + 1) * of_int b"
      using rb(1) by (intro mult_left_mono) simp_all
    with e ra(2) have "real_of_int a < 2 powi (k + 1) * of_int b" by linarith
    then show ?thesis using bpos by (simp add: pos_divide_less_eq)
  qed
  have bin: "binade a b = (if 2 powi k \<le> real_of_int a / real_of_int b then k else k - 1)"
    by (simp add: binade_def k_def La_def Lb_def)
  show "2 powi (binade a b) \<le> real_of_int a / real_of_int b"
    using lo by (simp add: bin)
  show "real_of_int a / real_of_int b < 2 powi (binade a b + 1)"
    using hi by (simp add: bin not_le)
qed

lemma binade_unique:
  assumes "0 < a" "0 < b"
    and "2 powi e \<le> real_of_int a / real_of_int b"
    and "real_of_int a / real_of_int b < 2 powi (e + 1)"
  shows "binade a b = e"
proof -
  from binade_bounds(1) [OF assms(1,2)] assms(4)
  have "(2::real) powi (binade a b) < 2 powi (e + 1)" by simp
  then have 1: "binade a b < e + 1" by (simp only: two_powi_less_iff)
  from binade_bounds(2) [OF assms(1,2)] assms(3)
  have "(2::real) powi e < 2 powi (binade a b + 1)" by simp
  then have 2: "e < binade a b + 1" by (simp only: two_powi_less_iff)
  from 1 2 show ?thesis by simp
qed


lemma chunk_count_ceiling_if:
  assumes a: "0 < a" and b: "0 < b"
    and E: "max (binade a b) (- 1022) \<le> 52"
    and gap: "2 powi (max (binade a b) (- 1022) - 52) / 2
                < real_of_int a / real_of_int b - (of_int \<lceil>real_of_int a / real_of_int b\<rceil> - 1)"
  shows "chunk_count a b = Inr \<lceil>real_of_int a / real_of_int b\<rceil>"
proof -
  define x where "x = real_of_int a / real_of_int b"
  define k where "k = \<lceil>x\<rceil>"
  define E where "E = max (binade a b) (- 1022)"
  define u :: real where "u = 2 powi (E - 52)"
  define P :: int where "P = 2 ^ nat (52 - E)"
  define y where "y = x / u"
  define m where "m = round_half_even y"
  have E52: "E \<le> 52" using E by (simp add: E_def)
  have u: "0 < u" by (simp add: u_def)
  have Pu: "real_of_int P * u = 1"
  proof -
    have "real_of_int P = 2 powi (52 - E)"
      using E52 by (simp add: P_def power_int_def)
    then have "real_of_int P * u = 2 powi ((52 - E) + (E - 52))"
      unfolding u_def by (subst power_int_add) simp_all
    then show ?thesis by simp
  qed
  have xk: "x \<le> of_int k" "of_int k - 1 < x"
    unfolding k_def by linarith+
  have yu: "y * u = x" using u by (simp add: y_def)
  have "y \<le> of_int (k * P)"
  proof -
    have "y * u \<le> of_int (k * P) * u" using xk(1) Pu yu by (simp add: mult.assoc)
    then show ?thesis using u by simp
  qed
  then have "m \<le> k * P" unfolding m_def by (rule round_half_even_le)
  then have "real_of_int m \<le> of_int (k * P)" by (simp only: of_int_le_iff)
  then have "real_of_int m * u \<le> of_int (k * P) * u"
    using u by (intro mult_right_mono) simp_all
  then have hi: "real_of_int m * u \<le> of_int k" using Pu by (simp add: mult.assoc)
  have "of_int ((k - 1) * P) + 1 / 2 < y"
  proof -
    have "(of_int ((k - 1) * P) + 1 / 2) * u = (of_int k - 1) + u / 2"
      using Pu by (simp add: algebra_simps)
    moreover have "u / 2 < x - (of_int k - 1)"
      unfolding x_def k_def u_def E_def by (rule gap)
    ultimately have "(of_int ((k - 1) * P) + 1 / 2) * u < y * u" using yu by linarith
    then show ?thesis using u by simp
  qed
  then have "(k - 1) * P + 1 \<le> m" unfolding m_def by (rule round_half_even_gt_half)
  then have "real_of_int ((k - 1) * P + 1) \<le> of_int m" by (simp only: of_int_le_iff)
  then have "real_of_int ((k - 1) * P + 1) * u \<le> of_int m * u"
    using u by (intro mult_right_mono) simp_all
  moreover have "real_of_int ((k - 1) * P + 1) * u = (of_int k - 1) + u"
    using Pu by (simp add: algebra_simps)
  ultimately have lo: "of_int k - 1 < real_of_int m * u" using u by linarith
  have "binade a b \<le> 52" using E by simp
  with binade_bounds(2) [OF a b] have "x < 2 powi 53"
  proof -
    assume 1: "real_of_int a / real_of_int b < 2 powi (binade a b + 1)" and 2: "binade a b \<le> 52"
    from 2 have "(2::real) powi (binade a b + 1) \<le> 2 powi 53"
      by (simp only: two_powi_le_iff)
    with 1 show ?thesis by (simp add: x_def)
  qed
  then have "x \<le> of_int (2 ^ 53)" by (simp add: power_int_def)
  then have "k \<le> 2 ^ 53" unfolding k_def by (simp only: ceiling_le_iff)
  then have "real_of_int k \<le> of_int (2 ^ 53)" by (simp only: of_int_le_iff)
  moreover have "real_of_int (2 ^ 53) < 2 powi 1024" 
    using two_powi_less_iff [of 53 1024] by (simp add: power_int_def)
  ultimately have nov: "\<not> 2 powi 1024 \<le> real_of_int m * u" using hi by linarith
  have "float_quotient a b = Inr (real_of_int m * u)"
    using nov unfolding float_quotient_def Let_def m_def y_def x_def u_def E_def by simp
  moreover have "truediv a b = float_quotient a b"
    using a b by (simp add: truediv_def)
  moreover have "\<lceil>real_of_int m * u\<rceil> = k"
    using lo hi by (rule ceiling_unique)
  ultimately show ?thesis by (simp add: chunk_count_def k_def x_def)
qed

lemma chunk_count_exact:
  assumes a: "1 \<le> a" "a < 2 ^ 53" and b: "1 \<le> b" "b < 2 ^ 1075"
  shows "chunk_count a b = Inr \<lceil>real_of_int a / real_of_int b\<rceil>"
proof (rule chunk_count_ceiling_if)
  show a0: "0 < a" using a by simp
  show b0: "0 < b" using b by simp
  define x where "x = real_of_int a / real_of_int b"
  define k where "k = \<lceil>x\<rceil>"
  define e where "e = binade a b"
  have rb: "0 < real_of_int b" using b0 by simp
  have e: "2 powi e \<le> x" unfolding e_def x_def by (rule binade_bounds(1) [OF a0 b0])
  have "x \<le> real_of_int a"
  proof -
    have "real_of_int a \<le> real_of_int a * real_of_int b"
      using a0 b by (simp add: mult_le_cancel_left1)
    then show ?thesis using rb by (simp add: x_def pos_divide_le_eq)
  qed
  moreover have "real_of_int a < 2 powi 53"
  proof -
    from a(2) have "real_of_int a < of_int (2 ^ 53)" by (simp only: of_int_less_iff)
    then show ?thesis by (simp add: power_int_def)
  qed
  ultimately have "(2::real) powi e < 2 powi 53" using e by linarith
  then have e52: "e \<le> 52" by (simp only: two_powi_less_iff)
  then show "max (binade a b) (- 1022) \<le> 52" by (simp add: e_def)
  have "real_of_int (k - 1) < x" unfolding k_def by simp linarith
  then have "real_of_int (k - 1) * real_of_int b < real_of_int a"
    using rb by (simp add: x_def pos_less_divide_eq)
  then have "real_of_int ((k - 1) * b) < real_of_int a" by simp
  then have "(k - 1) * b < a" by (simp only: of_int_less_iff)
  then have "(k - 1) * b + 1 \<le> a" by simp
  then have "real_of_int ((k - 1) * b + 1) \<le> real_of_int a" by (simp only: of_int_le_iff)
  then have "(of_int k - 1) * real_of_int b + 1 \<le> real_of_int a" by simp
  then have "((of_int k - 1) + 1 / real_of_int b) * real_of_int b \<le> real_of_int a"
    using rb by (simp add: algebra_simps)
  then have frac: "(of_int k - 1) + 1 / real_of_int b \<le> x"
    using rb by (simp add: x_def pos_le_divide_eq)
  have "2 powi (max e (- 1022) - 52) * real_of_int b < 2"
  proof (cases "- 1022 \<le> e")
    case True
    have "(2::real) powi (e - 52) * 2 powi 52 = 2 powi ((e - 52) + 52)"
      by (subst power_int_add) simp_all
    then have "(2::real) powi (e - 52) * 2 powi 52 = 2 powi e" by simp
    moreover have "2 powi e * real_of_int b \<le> real_of_int a"
      using e rb by (simp add: x_def pos_le_divide_eq)
    moreover have "real_of_int a < 2 * 2 powi 52"
    proof -
      from a(2) have "real_of_int a < of_int (2 ^ 53)" by (simp only: of_int_less_iff)
      then show ?thesis by (simp add: power_int_def)
    qed
    ultimately have "(2::real) powi (e - 52) * 2 powi 52 * real_of_int b < 2 * 2 powi 52"
      by simp
    then have "((2::real) powi (e - 52) * real_of_int b) * 2 powi 52 < 2 * 2 powi 52"
      by (simp add: mult.assoc mult.left_commute mult.commute)
    moreover have "0 < (2::real) powi 52" by (rule zero_less_power_int) simp
    ultimately have "(2::real) powi (e - 52) * real_of_int b < 2"
      by (simp only: mult_less_cancel_right_pos)
    with True show ?thesis by (simp add: max_def)
  next
    case False
    then have m: "max e (- 1022) - 52 = - 1074" by (simp add: max_def)
    from b(2) have "real_of_int b < of_int (2 ^ 1075)" by (simp only: of_int_less_iff)
    then have "real_of_int b < 2 * 2 powi 1074" by (simp add: power_int_def)
    moreover have "(2::real) powi (- 1074) * 2 powi 1074 = 2 powi ((- 1074) + 1074)"
      by (subst power_int_add) simp_all
    then have "(2::real) powi (- 1074) * 2 powi 1074 = 1" by simp
    moreover have "(2::real) powi (- 1074) * real_of_int b < 2 powi (- 1074) * (2 * 2 powi 1074)"
      using calculation(1) by (intro mult_strict_left_mono) simp_all
    ultimately have "(2::real) powi (- 1074) * real_of_int b < 2" by (simp add: algebra_simps)
    then show ?thesis by (simp only: m)
  qed
  then have "2 powi (max e (- 1022) - 52) / 2 < 1 / real_of_int b"
    using rb by (simp add: pos_less_divide_eq pos_divide_less_eq mult.commute)
  with frac have "2 powi (max e (- 1022) - 52) / 2 < x - (of_int k - 1)" by linarith
  then show "2 powi (max (binade a b) (- 1022) - 52) / 2
      < real_of_int a / real_of_int b - (of_int \<lceil>real_of_int a / real_of_int b\<rceil> - 1)"
    unfolding e_def x_def k_def .
qed

lemma chunk_count_single:
  assumes a: "1 \<le> a" "a \<le> b" and b: "b < 2 ^ 1075"
  shows "chunk_count a b = Inr 1"
proof -
  have a0: "0 < a" and b0: "0 < b" using a by simp_all
  define x where "x = real_of_int a / real_of_int b"
  define e where "e = binade a b"
  have rb: "0 < real_of_int b" using b0 by simp
  have x: "0 < x" "x \<le> 1" using a0 b0 a(2) by (simp_all add: x_def)
  then have k: "\<lceil>x\<rceil> = 1" by (intro ceiling_unique) simp_all
  have e: "2 powi e \<le> x" unfolding e_def x_def by (rule binade_bounds(1) [OF a0 b0])
  with x(2) have "(2::real) powi e \<le> 2 powi 0" by simp
  then have e0: "e \<le> 0" by (simp only: two_powi_le_iff)
  have "2 powi (max e (- 1022) - 52) / 2 < x"
  proof (cases "- 1022 \<le> e")
    case True
    have "(2::real) powi (e - 52) * 2 powi 52 = 2 powi ((e - 52) + 52)"
      by (subst power_int_add) simp_all
    then have "(2::real) powi (e - 52) * 2 powi 52 = 2 powi e" by simp
    moreover have "(2::real) powi (e - 52) / 2 < 2 powi (e - 52) * 2 powi 52"
    proof -
      have "(1::real) / 2 < 2 powi 52" by (simp add: power_int_def)
      then have "(2::real) powi (e - 52) * (1 / 2) < 2 powi (e - 52) * 2 powi 52"
        by (intro mult_strict_left_mono) simp_all
      then show ?thesis by simp
    qed
    ultimately have "(2::real) powi (e - 52) / 2 < x" using e by linarith
    with True show ?thesis by (simp add: max_def)
  next
    case False
    then have m: "max e (- 1022) - 52 = - 1074" by (simp add: max_def)
    from b have "real_of_int b < of_int (2 ^ 1075)" by (simp only: of_int_less_iff)
    then have rb2: "real_of_int b < 2 * 2 powi 1074" by (simp add: power_int_def)
    have one: "(2::real) powi (- 1074) * 2 powi 1074 = 1"
    proof -
      have "(2::real) powi (- 1074) * 2 powi 1074 = 2 powi ((- 1074) + 1074)"
        by (subst power_int_add) simp_all
      then show ?thesis by simp
    qed
    have "(2::real) powi (- 1074) * real_of_int b < 2 powi (- 1074) * (2 * 2 powi 1074)"
      using rb2 by (intro mult_strict_left_mono) simp_all
    with one have "(2::real) powi (- 1074) * real_of_int b < 2" by (simp add: algebra_simps)
    moreover have "1 \<le> real_of_int a" using a(1) by simp
    ultimately have "(2::real) powi (- 1074) * real_of_int b < 2 * real_of_int a" by linarith
    then have "(2::real) powi (- 1074) / 2 < x"
      using rb by (simp add: x_def pos_less_divide_eq pos_divide_less_eq mult.commute)
    then show ?thesis by (simp only: m)
  qed
  with k have "2 powi (max e (- 1022) - 52) / 2 < x - (of_int \<lceil>x\<rceil> - 1)" by simp
  then have gap: "2 powi (max (binade a b) (- 1022) - 52) / 2
      < real_of_int a / real_of_int b - (of_int \<lceil>real_of_int a / real_of_int b\<rceil> - 1)"
    unfolding e_def x_def .
  have "max (binade a b) (- 1022) \<le> 52" using e0 by (simp add: e_def)
  from chunk_count_ceiling_if [OF a0 b0 this gap] k show ?thesis by (simp add: x_def)
qed

lemma chunk_count_zero: "p \<noteq> 0 \<Longrightarrow> chunk_count 0 p = Inr 0"
  by (simp add: chunk_count_def truediv_def)

lemma chunk_count_zero_pagesize: "chunk_count n 0 = Inl ZeroDivisionError"
  by (simp add: chunk_count_def truediv_def)

lemma chunk_count_above_mantissa: "chunk_count (2 ^ 53 + 1) (2 ^ 53) = Inr 1"
proof -
  have "binade (2 ^ 53 + 1) (2 ^ 53) = 0"
    by (rule binade_unique) (simp_all add: power_int_def power_one_over)
  then show ?thesis
    by (simp add: chunk_count_def truediv_def float_quotient_def round_half_even_def
        power_int_def power_one_over Let_def)
qed

lemma chunk_count_underflow: "chunk_count 1 (2 ^ 1080) = Inr 0"
proof -
  have "binade 1 (2 ^ 1080) = - 1080"
    by (rule binade_unique) (simp_all add: power_int_def power_one_over)
  then show ?thesis
    by (simp add: chunk_count_def truediv_def float_quotient_def round_half_even_def
        power_int_def power_one_over Let_def)
qed

lemma chunk_count_overflow: "chunk_count (10 ^ 400) 1 = Inl OverflowError"
proof -
  have "binade (10 ^ 400) 1 = 1328"
    by (rule binade_unique) (simp_all add: power_int_def power_one_over)
  then show ?thesis
    by (simp add: chunk_count_def truediv_def float_quotient_def round_half_even_def
        power_int_def power_one_over Let_def)
qed

lemma chunk_count_examples:
  "chunk_count 25000 10000 = Inr 3"
  "chunk_count 7 10000 = Inr 1"
  "chunk_count 25000 30000 = Inr 1"
  "chunk_count 0 10000 = Inr 0"
  using chunk_count_exact [of 25000 10000] chunk_count_single [of 7 10000]
    chunk_count_single [of 25000 30000] chunk_count_zero [of 10000]
  by simp_all


section \<open>Chunks and windows\<close>

lemma chunk_count_bounds:
  assumes "0 < p" "m = \<lceil>real_of_int e / real_of_int p\<rceil>"
  shows "(m - 1) * p < e \<and> e \<le> m * p"
proof -
  have m: "m = \<lceil>real_of_int e / real_of_int p\<rceil>"
    using assms by simp
  have "real_of_int e / real_of_int p \<le> real_of_int m" unfolding m by (rule le_of_int_ceiling)
  then have "real_of_int e \<le> real_of_int m * real_of_int p"
    using assms(1) by (simp add: pos_divide_le_eq)
  then have 1: "e \<le> m * p" by (metis of_int_le_iff of_int_mult)
  have "real_of_int m - 1 < real_of_int e / real_of_int p" unfolding m by linarith
  then have "(real_of_int m - 1) * real_of_int p < real_of_int e"
    using assms(1) by (simp add: pos_less_divide_eq)
  then have "real_of_int ((m - 1) * p) < real_of_int e" by simp
  then have 2: "(m - 1) * p < e" by (simp only: of_int_less_iff)
  from 1 2 show ?thesis by simp
qed

lemma tiles_pages:
  assumes p: "0 < p" and lo: "(int m - 1) * p < e" and hi: "e \<le> int m * p"
  shows "j < m \<Longrightarrow>
     tiles (int j * p)
       (map (\<lambda>i. (i * p, if e < i * p + p then e - i * p else p)) (map int [j..<m])) e"
proof (induction "m - j" arbitrary: j)
  case 0
  then show ?case by simp
next
  case (Suc d)
  have split: "[j..<m] = j # [Suc j..<m]"
    using Suc.prems by (simp add: upt_conv_Cons)
  show ?case
  proof (cases "Suc j < m")
    case True
    then have "int j + 2 \<le> int m" by simp
    then have "(int j + 1) * p \<le> (int m - 1) * p"
      using p by (intro mult_right_mono) simp_all
    then have full: "\<not> e < int j * p + p"
      using lo by (simp add: algebra_simps)
    have "tiles (int (Suc j) * p)
       (map (\<lambda>i. (i * p, if e < i * p + p then e - i * p else p)) (map int [Suc j..<m])) e"
      using Suc.hyps True by (intro Suc.hyps(1)) simp_all
    then show ?thesis
      using full p by (simp add: split algebra_simps)
  next
    case False
    then have last: "m = Suc j" using Suc.prems by simp
    have "int j * p < e" using lo by (simp add: last)
    moreover have "e \<le> int j * p + p" using hi by (simp add: last algebra_simps)
    ultimately show ?thesis
      using p by (auto simp add: last)
  qed
qed

lemma request_dicts_eq:
  assumes "validate_name env dataset = Inr table"
    and "get_count env table query = Inr n"
    and "get_schema env (''pub:'' @ table) = Inr schema"
  shows "request_dicts env dataset query crs bounds bounds_crs count sortby pagesize =
     (case chunk_count (effective_count count n) pagesize of
        Inl er \<Rightarrow> Inl er
      | Inr chunks \<Rightarrow>
     (case (if chunks > 1 \<and> \<not> truthy_str sortby
            then map_sum id Some (get_sortkey table schema) else Inr sortby) of
        Inl er \<Rightarrow> Inl er
      | Inr sb \<Rightarrow>
          if chunks \<le> 0 then Inr []
          else (case request_filter query bounds bounds_crs (geometry_column schema)
                       (base_request table crs sb) of
                  Inl er \<Rightarrow> Inl er
                | Inr req0 \<Rightarrow>
                    Inr (map (\<lambda>i. request_window (effective_count count n) pagesize chunks i req0)
                          (py_range chunks)))))"
proof -
  have loop: "for_each
       (chunk_request table crs sb query bounds bounds_crs g c pagesize chunks) (py_range chunks) [] =
     (if chunks \<le> 0 then Inr []
      else (case request_filter query bounds bounds_crs g (base_request table crs sb) of
              Inl er \<Rightarrow> Inl er
            | Inr req0 \<Rightarrow> Inr (map (\<lambda>i. request_window c pagesize chunks i req0) (py_range chunks))))"
    for sb g c chunks
  proof -
    have r: "py_range chunks = [] \<longleftrightarrow> chunks \<le> 0" by (simp add: py_range_def)
    show ?thesis
      using for_each_const_Nil [where body = "chunk_request table crs sb query bounds bounds_crs g c pagesize chunks"
          and F = "request_filter query bounds bounds_crs g (base_request table crs sb)"
          and g = "\<lambda>req0 i. request_window c pagesize chunks i req0"
          and js = "py_range chunks"]
      by (simp add: chunk_request_def r)
  qed
  have schema: "get_schema env (CHR ''p'' # CHR ''u'' # CHR ''b'' # CHR '':'' # table) = Inr schema"
    using assms(3) by simp
  show ?thesis
    unfolding request_dicts_def
    by (simp add: assms(1,2) schema loop Let_def cong: sum.case_cong)
qed

lemma base_request_keys:
  "fst ` set (base_request table crs sb) \<subseteq>
     {''service'', ''version'', ''request'', ''typeName'', ''outputFormat'', ''SRSNAME'', ''sortby''}"
  by (auto simp add: base_request_def Let_def keys_setitem)

lemma request_filter_cases:
  "request_filter query bounds bounds_crs g r = Inr r' \<Longrightarrow>
     r' = r \<or> (\<exists>v. r' = setitem r ''CQL_FILTER'' v)"
  by (auto simp add: request_filter_def Let_def split: if_splits list.splits)

lemma request_filter_keys:
  assumes "request_filter query bounds bounds_crs g r = Inr r'"
  shows "fst ` set r' \<subseteq> insert ''CQL_FILTER'' (fst ` set r)"
proof -
  from request_filter_cases [OF assms] show ?thesis
  proof
    assume "r' = r"
    then show ?thesis by blast
  next
    assume "\<exists>v. r' = setitem r ''CQL_FILTER'' v"
    then obtain v where "r' = setitem r ''CQL_FILTER'' v" ..
    then show ?thesis by (simp only: keys_setitem)
  qed
qed

lemma tiles_nth_bounds: "tiles a ws b \<Longrightarrow> k < length ws \<Longrightarrow>
   a \<le> fst (ws ! k) \<and> fst (ws ! k) + snd (ws ! k) \<le> b"
proof (induction a ws b arbitrary: k rule: tiles.induct)
  case (1 a b)
  then show ?case by simp
next
  case (2 a s c ws b)
  show ?case
  proof (cases k)
    case 0
    with 2 show ?thesis by (auto dest: tiles_le)
  next
    case (Suc k')
    from 2 Suc have k': "k' < length ws" and c: "0 < c" and t: "tiles (a + c) ws b"
      by simp_all
    have "a + c \<le> fst (ws ! k') \<and> fst (ws ! k') + snd (ws ! k') \<le> b"
      by (rule "2.IH" [OF t k'])
    with c Suc show ?thesis by simp
  qed
qed

lemma tiles_ordered: "tiles a ws b \<Longrightarrow> j < k \<Longrightarrow> k < length ws \<Longrightarrow>
   fst (ws ! j) + snd (ws ! j) \<le> fst (ws ! k)"
proof (induction a ws b arbitrary: j k rule: tiles.induct)
  case (1 a b)
  then show ?case by simp
next
  case (2 a s c ws b)
  from 2 obtain k' where k: "k = Suc k'" by (cases k) auto
  show ?case
  proof (cases j)
    case 0
    from 2 k have "a + c \<le> fst (ws ! k')" by (auto dest: tiles_nth_bounds)
    with 2 0 k show ?thesis by simp
  next
    case (Suc j')
    with 2 k show ?thesis by simp
  qed
qed

lemma tiles_disjoint: "tiles a ws b \<Longrightarrow> j < k \<Longrightarrow> k < length ws \<Longrightarrow>
   {fst (ws ! j)..<fst (ws ! j) + snd (ws ! j)} \<inter> {fst (ws ! k)..<fst (ws ! k) + snd (ws ! k)} = {}"
  by (drule (2) tiles_ordered) auto

lemma filtered_keys:
  assumes "request_filter query bounds bounds_crs g (base_request table crs sb) = Inr req0"
  shows "fst ` set req0 \<subseteq>
     {''service'', ''version'', ''request'', ''typeName'', ''outputFormat'', ''SRSNAME'',
      ''sortby'', ''CQL_FILTER''}"
  using request_filter_keys [OF assms] base_request_keys [of table crs sb] by blast

lemma filtered_no_window:
  assumes "request_filter query bounds bounds_crs g (base_request table crs sb) = Inr req0"
  shows "getitem req0 ''startIndex'' = None" and "getitem req0 ''count'' = None"
  using filtered_keys [OF assms] by (auto simp add: getitem_None_iff)

lemma window_single:
  assumes "getitem req0 ''startIndex'' = None"
  shows "window (request_window e p 1 i req0) = Some (0, e)"
  using assms
  by (simp add: window_def start_index_def request_window_def getitem_setitem)

lemma window_page:
  assumes "1 < chunks"
  shows "window (request_window e p chunks i req0) =
     Some (i * p, if e < i * p + p then e - i * p else p)"
  using assms
  by (simp add: window_def start_index_def request_window_def getitem_setitem Let_def)

lemma windows_of_plan:
  assumes p: "0 < p" and e: "0 < e" and m: "m = \<lceil>real_of_int e / real_of_int p\<rceil>"
    and s: "getitem req0 ''startIndex'' = None"
  shows "\<exists>ws. map window (map (\<lambda>i. request_window e p m i req0) (py_range m)) = map Some ws
           \<and> tiles 0 ws e \<and> int (length ws) = m"
proof -
  from chunk_count_bounds [OF p m] have lo: "(m - 1) * p < e" and hi: "e \<le> m * p" by simp_all
  have "0 < m * p" using hi e by simp
  then have mpos: "0 < m" using p by (simp add: zero_less_mult_iff)
  show ?thesis
  proof (cases "m = 1")
    case True
    have "py_range 1 = [0]" by (simp add: py_range_def)
    then show ?thesis
      using True e s by (intro exI [of _ "[(0, e)]"]) (simp add: window_single)
  next
    case False
    with mpos have big: "1 < m" by simp
    define ws where "ws = map (\<lambda>i. (i * p, if e < i * p + p then e - i * p else p)) (map int [0..<nat m])"
    have "tiles (int 0 * p) ws e"
      unfolding ws_def using mpos lo hi by (intro tiles_pages [OF p]) simp_all
    then have "tiles 0 ws e" by simp
    moreover have "map window (map (\<lambda>i. request_window e p m i req0) (py_range m)) = map Some ws"
      by (simp add: ws_def py_range_def window_page [OF big] comp_def)
    moreover have "int (length ws) = m" using mpos by (simp add: ws_def)
    ultimately show ?thesis by blast
  qed
qed

lemma length_four:
  assumes "length xs = 4"
  obtains b0 b1 b2 b3 where "xs = [b0, b1, b2, b3]"
proof -
  from assms have "length xs = Suc (Suc (Suc (Suc 0)))" by simp
  then show ?thesis using that by (auto simp add: length_Suc_conv)
qed

lemma request_filter_total:
  assumes "bounds_wellformed bounds"
  shows "\<exists>req0. request_filter query bounds bounds_crs g r = Inr req0"
proof (cases "truthy_seq bounds")
  case False
  then show ?thesis by (simp add: request_filter_def)
next
  case True
  with assms have "length (the bounds) = 4" by (simp add: bounds_wellformed_def)
  then obtain b0 b1 b2 b3 where "the bounds = [b0, b1, b2, b3]" by (rule length_four)
  with True show ?thesis by (simp add: request_filter_def Let_def)
qed

lemma getitem_request_window:
  "k \<noteq> ''startIndex'' \<Longrightarrow> k \<noteq> ''count'' \<Longrightarrow>
     getitem (request_window e p chunks i r) k = getitem r k"
  by (simp add: request_window_def Let_def getitem_setitem)

lemma keys_request_window:
  "fst ` set (request_window e p chunks i r) \<subseteq> insert ''startIndex'' (insert ''count'' (fst ` set r))"
  by (auto simp add: request_window_def Let_def keys_setitem simp del: image_insert)

lemma getitem_request_filter:
  assumes "request_filter query bounds bounds_crs g r = Inr r'" and "k \<noteq> ''CQL_FILTER''"
  shows "getitem r' k = getitem r k"
  using request_filter_cases [OF assms(1)] assms(2) by (auto simp add: getitem_setitem)

lemma getitem_base_request:
  "getitem (base_request table crs sb) ''service'' = Some (Str ''WFS'')"
  "getitem (base_request table crs sb) ''version'' = Some (Str ''2.0.0'')"
  "getitem (base_request table crs sb) ''request'' = Some (Str ''GetFeature'')"
  "getitem (base_request table crs sb) ''typeName'' = Some (Str table)"
  "getitem (base_request table crs sb) ''outputFormat'' = Some (Str ''json'')"
  "getitem (base_request table crs sb) ''SRSNAME'' = Some (Str crs)"
  "getitem (base_request table crs sb) ''sortby'' =
     (if truthy_str sb then Some (Str (upper (the sb))) else None)"
  "getitem (base_request table crs sb) ''CQL_FILTER'' = None"
  by (simp_all add: base_request_def Let_def getitem_setitem) (simp_all add: getitem_def)

lemma request_dicts_structure:
  assumes "validate_name env dataset = Inr table"
    and "get_count env table query = Inr n"
    and "get_schema env (''pub:'' @ table) = Inr schema"
    and "request_dicts env dataset query crs bounds bounds_crs count sortby p = Inr rs"
  obtains chunks sb where
    "chunk_count (effective_count count n) p = Inr chunks"
    "(if chunks > 1 \<and> \<not> truthy_str sortby
      then map_sum id Some (get_sortkey table schema) else Inr sortby) = Inr sb"
    "rs = [] \<or> (\<exists>req0. request_filter query bounds bounds_crs (geometry_column schema)
                            (base_request table crs sb) = Inr req0
                 \<and> rs = map (\<lambda>i. request_window (effective_count count n) p chunks i req0)
                          (py_range chunks))"
  using assms(4) unfolding request_dicts_eq [OF assms(1-3)]
  by (auto split: sum.splits if_splits)

lemma example_validate: "validate_name (example_env n) ''whse.t'' = Inr ''WHSE.T''"
  by (simp add: validate_name_def example_env_def upper_def upper_char_def)

lemma example_count: "get_count (example_env n) ''WHSE.T'' query = Inr n"
  by (simp add: get_count_def validate_name_def example_env_def upper_def upper_char_def
        raise_for_status_def)

lemma example_get_schema: "get_schema (example_env n) (''pub:'' @ ''WHSE.T'') = Inr example_schema"
  by (simp add: example_env_def)

lemma schema_env_validate: "validate_name (schema_env schema n) ''whse.t'' = Inr ''WHSE.T''"
  by (simp add: validate_name_def schema_env_def example_env_def upper_def upper_char_def)

lemma schema_env_count: "get_count (schema_env schema n) ''WHSE.T'' query = Inr n"
  by (simp add: get_count_def validate_name_def schema_env_def example_env_def upper_def
        upper_char_def raise_for_status_def)

lemma schema_env_get_schema: "get_schema (schema_env schema n) (''pub:'' @ ''WHSE.T'') = Inr schema"
  by (simp add: schema_env_def)

lemma chunk_count_two: "chunk_count 25000 20000 = Inr 2"
  using chunk_count_exact [of 25000 20000] by simp

lemma effective_count_min:
  "effective_count None n = n"
  "c \<noteq> 0 \<Longrightarrow> effective_count (Some c) n = min c n"
  by (simp_all add: effective_count_def truthy_int_def)

lemma get_sortkey_precedence:
  assumes "properties schema \<noteq> []"
  shows "get_sortkey table schema =
     Inr (if ''OBJECTID'' \<in> fst ` set (properties schema) then ''OBJECTID''
          else if ''SEQUENCE_ID'' \<in> fst ` set (properties schema) then ''SEQUENCE_ID''
          else fst (hd (properties schema)))"
  using assms by (cases "properties schema") (simp_all add: get_sortkey_def Let_def)

text \<open>
  The example of the specification: 25000 features in pages of 10000 are three requests
  with the windows (0, 10000), (10000, 10000) and (20000, 5000).
\<close>

lemma example_plan_three:
  "request_dicts (example_env 25000) ''whse.t'' None ''epsg:4326'' None ''EPSG:3005'' None None 10000 =
     Inr [[(''service'', Str ''WFS''), (''version'', Str ''2.0.0''),
           (''request'', Str ''GetFeature''), (''typeName'', Str ''WHSE.T''),
           (''outputFormat'', Str ''json''), (''SRSNAME'', Str ''epsg:4326''),
           (''sortby'', Str ''FEATURE_ID''), (''startIndex'', Num 0), (''count'', Num 10000)],
          [(''service'', Str ''WFS''), (''version'', Str ''2.0.0''),
           (''request'', Str ''GetFeature''), (''typeName'', Str ''WHSE.T''),
           (''outputFormat'', Str ''json''), (''SRSNAME'', Str ''epsg:4326''),
           (''sortby'', Str ''FEATURE_ID''), (''startIndex'', Num 10000), (''count'', Num 10000)],
          [(''service'', Str ''WFS''), (''version'', Str ''2.0.0''),
           (''request'', Str ''GetFeature''), (''typeName'', Str ''WHSE.T''),
           (''outputFormat'', Str ''json''), (''SRSNAME'', Str ''epsg:4326''),
           (''sortby'', Str ''FEATURE_ID''), (''startIndex'', Num 20000), (''count'', Num 5000)]]"
proof -
  have u: "upper ''FEATURE_ID'' = ''FEATURE_ID''"
    by (simp add: upper_def upper_char_def)
  have r: "py_range 3 = [0, 1, 2]"
    by (simp add: py_range_def upt_conv_Cons)
  show ?thesis
    by (simp add:
      request_dicts_eq [OF example_validate example_count example_get_schema]
      effective_count_def truthy_int_def chunk_count_examples truthy_str_def r u
      get_sortkey_def example_schema_def
      request_filter_def truthy_seq_def base_request_def request_window_def setitem_def)
qed

lemma example_plan_filtered:
  "request_dicts (example_env 7) ''whse.t'' (Some ''A=1'') ''epsg:4326''
       (Some [''1.0'', ''2.0'', ''3.0'', ''4.0'']) ''EPSG:3005'' None None 10000 =
     Inr [[(''service'', Str ''WFS''), (''version'', Str ''2.0.0''),
           (''request'', Str ''GetFeature''), (''typeName'', Str ''WHSE.T''),
           (''outputFormat'', Str ''json''), (''SRSNAME'', Str ''epsg:4326''),
           (''CQL_FILTER'', Str (''A=1 AND bbox(SHAPE, 1.0, 2.0, 3.0, 4.0, '' @ [CHR 0x27] @ ''EPSG:3005'' @ [CHR 0x27] @ '')'')),
           (''count'', Num 7)]]"
  by (simp add:
      request_dicts_eq [OF example_validate example_count example_get_schema]
      effective_count_def truthy_int_def chunk_count_examples truthy_str_def py_range_def
      example_schema_def bbox_query_def
      request_filter_def truthy_seq_def base_request_def request_window_def setitem_def)

section \<open>Casting to multi-part geometries\<close>

lemma cast_one:
  "to_multipolygon (to_multilinestring (to_multipoint feature)) =
     (case feature of
        None \<Rightarrow> None
      | Some (Point c) \<Rightarrow> Some (MultiPoint [c])
      | Some (LineString cs) \<Rightarrow> Some (MultiLineString [cs])
      | Some (Polygon rings) \<Rightarrow> Some (MultiPolygon [rings])
      | Some (MultiPoint cs) \<Rightarrow> Some (MultiPoint cs)
      | Some (MultiLineString ls) \<Rightarrow> Some (MultiLineString ls)
      | Some (MultiPolygon ps) \<Rightarrow> Some (MultiPolygon ps)
      | Some (GeometryCollection gs) \<Rightarrow> Some (GeometryCollection gs))"
  by (simp add: to_multipoint_def to_multilinestring_def to_multipolygon_def
      split: option.splits geometry.splits)

lemma cast_one_idem:
  "to_multipolygon (to_multilinestring (to_multipoint
     (to_multipolygon (to_multilinestring (to_multipoint feature))))) =
   to_multipolygon (to_multilinestring (to_multipoint feature))"
  by (simp add: to_multipoint_def to_multilinestring_def to_multipolygon_def
      split: option.splits geometry.splits)

lemma normalize_frame_rows:
  "normalize_frame df =
     df\<lparr>rows := map (\<lambda>r. r\<lparr>geom := to_multipolygon (to_multilinestring (to_multipoint (geom r)))\<rparr>)
                  (rows df)\<rparr>"
  by (simp add: normalize_frame_def assign_geom_def comp_def)

lemma outage_validate: "validate_name (outage_env result) ''whse.t'' = Inr ''WHSE.T''"
  by (simp add: validate_name_def outage_env_def example_env_def upper_def upper_char_def)

section \<open>Steps of the loader\<close>

lemma bind_lift_Inr: "bind (lift (Inr x)) f = f x"
  by (simp add: bind_def lift_def)

lemma bind_lift_Inl: "bind (lift (Inl e)) f = raise e"
  by (simp add: bind_def lift_def raise_def)

lemma bind_ret: "bind (ret x) f = f x"
  by (simp add: bind_def ret_def)

lemma bind_raise: "bind (raise e) f = raise e"
  by (simp add: bind_def raise_def)

lemma bind_emit: "bind (emit ev) f trace = f () (trace @ [ev])"
  by (simp add: bind_def emit_def)

lemma bind_assoc: "bind (bind m f) g = bind m (\<lambda>x. bind (f x) g)"
  by (auto simp add: bind_def fun_eq_iff split: prod.splits sum.splits)

lemma bind_if: "bind (if c then m else n) f = (if c then bind m f else bind n f)"
  by simp

lemmas io_simps = bind_lift_Inr bind_lift_Inl bind_ret bind_raise bind_emit raise_def ret_def

lemma extends_ret: "extends (ret x)"
  by (simp add: extends_def ret_def)

lemma extends_raise: "extends (raise e)"
  by (simp add: extends_def raise_def)

lemma extends_lift: "extends (lift r)"
  by (simp add: extends_def lift_def)

lemma extends_emit: "extends (emit ev)"
  by (simp add: extends_def emit_def)

lemma extends_bind:
  assumes "extends m" and "\<And>x. extends (f x)"
  shows "extends (bind m f)"
proof (unfold extends_def, intro allI)
  fix trace
  from assms(1) obtain ev where m: "fst (m trace) = trace @ ev"
    unfolding extends_def by blast
  show "\<exists>events. fst (bind m f trace) = trace @ events"
  proof (cases "m trace")
    case (Pair trace' r)
    with m have t: "trace' = trace @ ev" by simp
    show ?thesis
    proof (cases r)
      case (Inl e)
      with Pair t show ?thesis by (simp add: bind_def)
    next
      case (Inr x)
      from assms(2) [of x] obtain ev' where "fst (f x trace') = trace' @ ev'"
        unfolding extends_def by blast
      with Pair Inr t show ?thesis by (simp add: bind_def)
    qed
  qed
qed

lemma extends_if: "extends m \<Longrightarrow> extends n \<Longrightarrow> extends (if c then m else n)"
  by simp

lemma extends_case_prod: "(\<And>a b. extends (f a b)) \<Longrightarrow> extends (case p of (a, b) \<Rightarrow> f a b)"
  by (cases p) simp

lemma extends_case_option:
  "extends n \<Longrightarrow> (\<And>x. extends (s x)) \<Longrightarrow> extends (case v of None \<Rightarrow> n | Some x \<Rightarrow> s x)"
  by (cases v) simp_all

lemma extends_case_list:
  "extends n \<Longrightarrow> (\<And>x xs. extends (c x xs)) \<Longrightarrow> extends (case l of [] \<Rightarrow> n | x # xs \<Rightarrow> c x xs)"
  by (cases l) simp_all

lemmas extends_intros =
  extends_bind extends_ret extends_raise extends_lift extends_emit extends_if
  extends_case_prod extends_case_option extends_case_list

lemma extends_load_chunk: "extends (load_chunk env s t cols df url)"
  unfolding load_chunk_def by (intro extends_intros)

lemma extends_load_chunks: "extends (load_chunks env s t cols df urls)"
proof -
  have "\<exists>events. fst (load_chunks env s t cols df urls trace) = trace @ events" for trace
  proof (induction urls arbitrary: df trace)
    case Nil
    show ?case by simp
  next
    case (Cons url urls)
    from extends_load_chunk [of env s t cols df url]
    obtain ev where ev: "fst (load_chunk env s t cols df url trace) = trace @ ev"
      unfolding extends_def by blast
    show ?case
    proof (cases "load_chunk env s t cols df url trace")
      case (Pair trace' r)
      with ev have t: "trace' = trace @ ev" by simp
      show ?thesis
      proof (cases r)
        case (Inl e)
        with Pair t show ?thesis by simp
      next
        case (Inr u)
        from Cons.IH [of None trace'] obtain ev' where
          "fst (load_chunks env s t cols None urls trace') = trace' @ ev'" by blast
        with Pair Inr t show ?thesis by simp
      qed
    qed
  qed
  then show ?thesis unfolding extends_def by blast
qed

lemma extends_log_download: "extends (log_download name)"
  unfolding log_download_def by (intro extends_intros)

lemma extends_resolve: "extends (resolve_geometry_type env urls geometry_type)"
  unfolding resolve_geometry_type_def by (intro extends_intros)

lemma extends_create_target:
  "extends (create_target env dataset s t urls geometry_type primary_key append_mode)"
  unfolding create_target_def Let_def by (intro extends_intros extends_resolve)

lemma extends_append_target: "extends (append_target db s t)"
  unfolding append_target_def by (intro extends_intros)

lemma extends_finish:
  "extends (\<lambda>trace. bind (if truthy_str sortby \<and> lower (the sortby) \<notin> set column_names then
             raise (ValueError (''Specified sortby column '' @ the sortby
                                  @ '' is not present in '' @ dataset))
           else ret ()) (\<lambda>_.
     bind (if \<not> schema_only then
             bind (load_chunks env schema_name table_name column_names df urls) (\<lambda>_.
             if timestamp then log_download (schema_name @ ''.'' @ table_name) else ret ())
           else ret ()) (\<lambda>_.
     ret (schema_name @ ''.'' @ table_name))) trace)"
  by (intro extends_intros extends_load_chunks extends_log_download)

lemma take_extends:
  assumes "extends m"
  shows "take (length trace) (fst (m trace)) = trace"
  using assms unfolding extends_def by (metis append_eq_conv_conj)

lemma take_extends_n:
  assumes "extends m" and "length trace = n"
  shows "take n (fst (m trace)) = trace"
  using take_extends [OF assms(1), of trace] assms(2) by simp

lemma bc2pg_append:
  assumes "validate_name (wfs env) dataset0 = Inr dataset"
    and "target_names dataset schema table = Inr (schema_name, table_name)"
    and "connect env db_url = Inr db"
    and "define_requests (wfs env) dataset query ''epsg:3005'' None ''EPSG:3005''
           count sortby 10000 = Inr urls"
  shows "schema_name @ ''.'' @ table_name \<notin> set (tables db) \<Longrightarrow>
     bc2pg env dataset0 db_url table schema geometry_type query count sortby primary_key
       timestamp schema_only True =
     ([Connect db_url, PlanRequests dataset, ListTables],
      Inl (ValueError (schema_name @ ''.'' @ table_name @ '' does not exist, nothing to append to'')))"
    and "schema_name @ ''.'' @ table_name \<in> set (tables db) \<Longrightarrow>
     take 4 (fst (bc2pg env dataset0 db_url table schema geometry_type query count sortby primary_key
       timestamp schema_only True)) =
     [Connect db_url, PlanRequests dataset, ListTables, GetColumns schema_name table_name]"
proof -
  have start: "bc2pg env dataset0 db_url table schema geometry_type query count sortby primary_key
       timestamp schema_only True =
     bind (append_target db schema_name table_name) (\<lambda>(column_names, df).
     bind (if truthy_str sortby \<and> lower (the sortby) \<notin> set column_names then
             raise (ValueError (''Specified sortby column '' @ the sortby
                                  @ '' is not present in '' @ dataset))
           else ret ()) (\<lambda>_.
     bind (if \<not> schema_only then
             bind (load_chunks env schema_name table_name column_names df urls) (\<lambda>_.
             if timestamp then log_download (schema_name @ ''.'' @ table_name) else ret ())
           else ret ()) (\<lambda>_.
     ret (schema_name @ ''.'' @ table_name)))) [Connect db_url, PlanRequests dataset]"
    unfolding bc2pg_def
    by (simp add: assms bind_lift_Inr bind_emit)
  {
    assume "schema_name @ ''.'' @ table_name \<notin> set (tables db)"
    then show "bc2pg env dataset0 db_url table schema geometry_type query count sortby primary_key
       timestamp schema_only True =
     ([Connect db_url, PlanRequests dataset, ListTables],
      Inl (ValueError (schema_name @ ''.'' @ table_name @ '' does not exist, nothing to append to'')))"
      unfolding start
      by (simp add: append_target_def bind_assoc bind_emit bind_raise) (simp add: raise_def)
  }
  {
    assume present: "schema_name @ ''.'' @ table_name \<in> set (tables db)"
    show "take 4 (fst (bc2pg env dataset0 db_url table schema geometry_type query count sortby primary_key
       timestamp schema_only True)) =
     [Connect db_url, PlanRequests dataset, ListTables, GetColumns schema_name table_name]"
    proof -
      let ?rest = "\<lambda>trace. bind (if truthy_str sortby
                 \<and> lower (the sortby) \<notin> set (get_columns db schema_name table_name) then
             raise (ValueError (''Specified sortby column '' @ the sortby
                                  @ '' is not present in '' @ dataset))
           else ret ()) (\<lambda>_.
     bind (if \<not> schema_only then
             bind (load_chunks env schema_name table_name (get_columns db schema_name table_name)
                     None urls) (\<lambda>_.
             if timestamp then log_download (schema_name @ ''.'' @ table_name) else ret ())
           else ret ()) (\<lambda>_.
     ret (schema_name @ ''.'' @ table_name))) trace"
      have eq: "bc2pg env dataset0 db_url table schema geometry_type query count sortby primary_key
          timestamp schema_only True =
        ?rest [Connect db_url, PlanRequests dataset, ListTables, GetColumns schema_name table_name]"
        unfolding start using present
        by (simp add: append_target_def bind_assoc bind_emit bind_ret)
      have tk: "take 4
          (fst (?rest [Connect db_url, PlanRequests dataset, ListTables,
            GetColumns schema_name table_name])) =
          [Connect db_url, PlanRequests dataset, ListTables, GetColumns schema_name table_name]"
        by (rule take_extends_n [OF extends_finish]) simp
      show ?thesis by (simp only: eq tk)
    qed
  }
qed

lemma geom_type_nonempty: "geom_type g \<noteq> []"
  by (cases g) simp_all

lemma probe_first:
  assumes "rows df = r # rest" and "geom r = Some g"
  shows "probe df = Inr (Some (geom_type g @ (if has_z g then ''Z'' else [])))"
  using assms by (simp add: probe_def)

lemma resolve_probe:
  assumes "\<not> truthy_str geometry_type"
    and "make_requests env url = Inr df"
    and "rows df = r # rest" and "geom r = Some g"
  shows "resolve_geometry_type env (url # others) geometry_type trace =
     (trace @ [MakeRequests url],
      Inr (Some (geom_type g @ (if has_z g then ''Z'' else [])), Some df))"
proof -
  have t: "truthy_str (Some (geom_type g @ (if has_z g then ''Z'' else [])))"
    by (simp add: truthy_str_def geom_type_nonempty)
  show ?thesis
    unfolding resolve_geometry_type_def
    using t assms(1)
    by (simp add: assms(2) probe_first [OF assms(3,4)] bind_assoc bind_emit bind_lift_Inr bind_ret
        del: append_is_Nil_conv)
      (simp add: ret_def)
qed

lemma bc2pg_create_probe:
  assumes "validate_name (wfs env) dataset0 = Inr dataset"
    and "target_names dataset schema table = Inr (schema_name, table_name)"
    and "connect env db_url = Inr db"
    and "define_requests (wfs env) dataset query ''epsg:3005'' None ''EPSG:3005''
           count sortby 10000 = Inr (url # others)"
    and "get_table_definition env dataset = Inr td"
    and "td_schema td \<noteq> []"
    and "\<not> truthy_str geometry_type"
    and "make_requests env url = Inr df"
    and "rows df = r # rest" and "geom r = Some g"
    and "resolved = upper (geom_type g @ (if has_z g then ''Z'' else []))"
  shows "resolved \<notin> set SUPPORTED_TYPES \<Longrightarrow>
     bc2pg env dataset0 db_url table schema geometry_type query count sortby primary_key
       timestamp schema_only False =
     ([Connect db_url, PlanRequests dataset, GetTableDefinition dataset, MakeRequests url],
      Inl (ValueError ''Geometry type {geometry_type} is not supported''))"
    and "resolved \<in> set SUPPORTED_TYPES \<Longrightarrow>
     \<not> (truthy_str primary_key
        \<and> upper (the primary_key) \<notin> set (map (\<lambda>c. upper (column_name c)) (td_schema td))) \<Longrightarrow>
     take 5 (fst (bc2pg env dataset0 db_url table schema geometry_type query count sortby primary_key
       timestamp schema_only False)) =
     [Connect db_url, PlanRequests dataset, GetTableDefinition dataset, MakeRequests url,
      DefineTable schema_name table_name resolved]"
proof -
  let ?finish = "\<lambda>(column_names, df).
     bind (if truthy_str sortby \<and> lower (the sortby) \<notin> set column_names then
             raise (ValueError (''Specified sortby column '' @ the sortby
                                  @ '' is not present in '' @ dataset))
           else ret ()) (\<lambda>_.
     bind (if \<not> schema_only then
             bind (load_chunks env schema_name table_name column_names df (url # others)) (\<lambda>_.
             if timestamp then log_download (schema_name @ ''.'' @ table_name) else ret ())
           else ret ()) (\<lambda>_.
     ret (schema_name @ ''.'' @ table_name)))"
  have start: "bc2pg env dataset0 db_url table schema geometry_type query count sortby primary_key
       timestamp schema_only False =
     bind (create_target env dataset schema_name table_name (url # others) geometry_type
             primary_key False) ?finish [Connect db_url, PlanRequests dataset]"
    unfolding bc2pg_def
    by (simp add: assms(1-4) bind_lift_Inr bind_emit)
  {
    assume "resolved \<notin> set SUPPORTED_TYPES"
    then have "create_target env dataset schema_name table_name (url # others) geometry_type
             primary_key False [Connect db_url, PlanRequests dataset] =
       ([Connect db_url, PlanRequests dataset, GetTableDefinition dataset, MakeRequests url],
        Inl (ValueError ''Geometry type {geometry_type} is not supported''))"
      unfolding create_target_def
      by (simp add: bind_emit assms(5,6) bind_lift_Inr bind_def [of "resolve_geometry_type _ _ _"]
          resolve_probe [OF assms(7-10)] flip: assms(11))
        (simp add: raise_def)
    then show "bc2pg env dataset0 db_url table schema geometry_type query count sortby primary_key
       timestamp schema_only False =
     ([Connect db_url, PlanRequests dataset, GetTableDefinition dataset, MakeRequests url],
      Inl (ValueError ''Geometry type {geometry_type} is not supported''))"
      unfolding start by (simp add: bind_def)
  }
  {
    assume ok: "resolved \<in> set SUPPORTED_TYPES"
      and pk: "\<not> (truthy_str primary_key
        \<and> upper (the primary_key) \<notin> set (map (\<lambda>c. upper (column_name c)) (td_schema td)))"
    let ?T = "[Connect db_url, PlanRequests dataset, GetTableDefinition dataset, MakeRequests url,
      DefineTable schema_name table_name resolved]"
    let ?rest = "bind (bind (lift (define_table env schema_name table_name (td_schema td)
                             resolved (comments td) primary_key False))
                 (\<lambda>column_names. ret (column_names, Some df))) ?finish"
    have ct: "create_target env dataset schema_name table_name (url # others) geometry_type
             primary_key False [Connect db_url, PlanRequests dataset] =
        bind (lift (define_table env schema_name table_name (td_schema td)
                             resolved (comments td) primary_key False))
                 (\<lambda>column_names. ret (column_names, Some df)) ?T"
    proof -
      have pk': "(truthy_str primary_key
          \<and> upper (the primary_key) \<notin> (\<lambda>c. upper (column_name c)) ` set (td_schema td)) = False"
        using pk by simp
      show ?thesis
        unfolding create_target_def
        using ok
        by (simp add: bind_emit assms(5,6) bind_lift_Inr bind_def [of "resolve_geometry_type _ _ _"]
            resolve_probe [OF assms(7-10)] pk' flip: assms(11))
    qed
    have eq: "bc2pg env dataset0 db_url table schema geometry_type query count sortby primary_key
       timestamp schema_only False = ?rest ?T"
      unfolding start by (simp add: bind_def [of "create_target _ _ _ _ _ _ _ _"] ct)
        (simp add: bind_def)
    have ext: "extends ?rest"
      by (intro extends_intros extends_load_chunks extends_log_download)
    have tk: "take 5 (fst (?rest ?T)) = ?T"
      by (rule take_extends_n [OF ext]) simp
    show "take 5 (fst (bc2pg env dataset0 db_url table schema geometry_type query count sortby primary_key
       timestamp schema_only False)) = ?T"
      by (simp only: eq tk)
  }
qed

lemma probe_Some:
  assumes "probe df = Inr (Some t)"
  shows "\<exists>r rest g. rows df = r # rest \<and> geom r = Some g
           \<and> t = geom_type g @ (if has_z g then ''Z'' else [])"
  using assms
  by (auto simp add: probe_def Let_def split: list.splits option.splits if_splits)

lemma resolve_geometry_type_cases:
  assumes "\<not> truthy_str geometry_type"
  shows "resolve_geometry_type env (url # others) geometry_type trace =
     (case make_requests env url of
        Inl e \<Rightarrow> (trace @ [MakeRequests url], Inl e)
      | Inr df \<Rightarrow>
          (case probe df of
             Inl e \<Rightarrow> (trace @ [MakeRequests url], Inl e)
           | Inr t \<Rightarrow>
               if truthy_str t \<or> last (url # others) = url
               then (trace @ [MakeRequests url], Inr (t, Some df))
               else (case make_requests env (last (url # others)) of
                       Inl e \<Rightarrow>
                         (trace @ [MakeRequests url, MakeRequests (last (url # others))], Inl e)
                     | Inr df_temp \<Rightarrow>
                         (case probe df_temp of
                            Inl e \<Rightarrow>
                              (trace @ [MakeRequests url, MakeRequests (last (url # others))],
                               Inl e)
                          | Inr t' \<Rightarrow>
                              (trace @ [MakeRequests url, MakeRequests (last (url # others))],
                               Inr (t', Some df))))))"
  unfolding resolve_geometry_type_def
  using assms
  by (simp add: bind_def emit_def lift_def ret_def raise_def split: sum.splits
      del: append_is_Nil_conv last.simps)

lemma resolve_geometry_type_probed:
  assumes "\<not> truthy_str geometry_type"
    and "resolve_geometry_type env urls geometry_type trace = (trace', Inr (Some t, probed))"
  shows "\<exists>url df r rest g.
     make_requests env url = Inr df \<and> rows df = r # rest \<and> geom r = Some g
     \<and> t = geom_type g @ (if has_z g then ''Z'' else [])
     \<and> (url = hd urls \<and> trace' = trace @ [MakeRequests url]
        \<or> url = last urls \<and> trace' = trace @ [MakeRequests (hd urls), MakeRequests url])"
proof (cases urls)
  case Nil
  with assms show ?thesis
    by (simp add: resolve_geometry_type_def bind_def raise_def)
next
  case (Cons url others)
  note r = assms(2) [unfolded Cons resolve_geometry_type_cases [OF assms(1)]]
  from r obtain df where df: "make_requests env url = Inr df"
    by (cases "make_requests env url") simp_all
  from r df obtain t1 where t1: "probe df = Inr t1"
    by (cases "probe df") simp_all
  show ?thesis
  proof (cases "truthy_str t1 \<or> last (url # others) = url")
    case True
    with r df t1 have "t1 = Some t" and tr: "trace' = trace @ [MakeRequests url]"
      by simp_all
    with t1 have "probe df = Inr (Some t)" by simp
    from probe_Some [OF this] obtain r rest g where
      "rows df = r # rest" "geom r = Some g" "t = geom_type g @ (if has_z g then ''Z'' else [])"
      by blast
    with df tr show ?thesis
      unfolding Cons list.sel by blast
  next
    case False
    from r df t1 False obtain df2 where df2: "make_requests env (last (url # others)) = Inr df2"
      by (cases "make_requests env (last (url # others))") simp_all
    from r df t1 False df2 obtain t2 where t2: "probe df2 = Inr t2"
      by (cases "probe df2") simp_all
    from r df t1 False df2 t2 have "t2 = Some t"
      and tr: "trace' = trace @ [MakeRequests url, MakeRequests (last (url # others))]"
      by simp_all
    with t2 have "probe df2 = Inr (Some t)" by simp
    from probe_Some [OF this] obtain r rest g where
      "rows df2 = r # rest" "geom r = Some g" "t = geom_type g @ (if has_z g then ''Z'' else [])"
      by blast
    with df2 tr show ?thesis
      unfolding Cons list.sel by blast
  qed
qed

lemma bc2pg_create_resolved:
  assumes "validate_name (wfs env) dataset0 = Inr dataset"
    and "target_names dataset schema table = Inr (schema_name, table_name)"
    and "connect env db_url = Inr db"
    and "define_requests (wfs env) dataset query ''epsg:3005'' None ''EPSG:3005''
           count sortby 10000 = Inr urls"
    and "get_table_definition env dataset = Inr td"
    and "td_schema td \<noteq> []"
    and "resolve_geometry_type env urls geometry_type
           [Connect db_url, PlanRequests dataset, GetTableDefinition dataset]
         = (trace, Inr (Some t, probed))"
  shows "upper t \<notin> set SUPPORTED_TYPES \<Longrightarrow>
     bc2pg env dataset0 db_url table schema geometry_type query count sortby primary_key
       timestamp schema_only False =
     (trace, Inl (ValueError ''Geometry type {geometry_type} is not supported''))"
    and "upper t \<in> set SUPPORTED_TYPES \<Longrightarrow>
     \<not> (truthy_str primary_key
        \<and> upper (the primary_key) \<notin> set (map (\<lambda>c. upper (column_name c)) (td_schema td))) \<Longrightarrow>
     take (Suc (length trace))
       (fst (bc2pg env dataset0 db_url table schema geometry_type query count sortby primary_key
          timestamp schema_only False)) =
     trace @ [DefineTable schema_name table_name (upper t)]"
proof -
  let ?finish = "\<lambda>(column_names, df).
     bind (if truthy_str sortby \<and> lower (the sortby) \<notin> set column_names then
             raise (ValueError (''Specified sortby column '' @ the sortby
                                  @ '' is not present in '' @ dataset))
           else ret ()) (\<lambda>_.
     bind (if \<not> schema_only then
             bind (load_chunks env schema_name table_name column_names df urls) (\<lambda>_.
             if timestamp then log_download (schema_name @ ''.'' @ table_name) else ret ())
           else ret ()) (\<lambda>_.
     ret (schema_name @ ''.'' @ table_name)))"
  have start: "bc2pg env dataset0 db_url table schema geometry_type query count sortby primary_key
       timestamp schema_only False =
     bind (create_target env dataset schema_name table_name urls geometry_type
             primary_key False) ?finish [Connect db_url, PlanRequests dataset]"
    unfolding bc2pg_def
    by (simp add: assms(1-4) bind_lift_Inr bind_emit)
  {
    assume "upper t \<notin> set SUPPORTED_TYPES"
    then have "create_target env dataset schema_name table_name urls geometry_type
             primary_key False [Connect db_url, PlanRequests dataset] =
       (trace, Inl (ValueError ''Geometry type {geometry_type} is not supported''))"
      unfolding create_target_def
      by (simp add: bind_emit assms(5,6) bind_lift_Inr bind_def [of "resolve_geometry_type _ _ _"]
          assms(7) Let_def)
        (simp add: raise_def)
    then show "bc2pg env dataset0 db_url table schema geometry_type query count sortby primary_key
       timestamp schema_only False =
     (trace, Inl (ValueError ''Geometry type {geometry_type} is not supported''))"
      unfolding start by (simp add: bind_def)
  }
  {
    assume ok: "upper t \<in> set SUPPORTED_TYPES"
      and pk: "\<not> (truthy_str primary_key
        \<and> upper (the primary_key) \<notin> set (map (\<lambda>c. upper (column_name c)) (td_schema td)))"
    let ?T = "trace @ [DefineTable schema_name table_name (upper t)]"
    let ?rest = "bind (bind (lift (define_table env schema_name table_name (td_schema td)
                             (upper t) (comments td) primary_key False))
                 (\<lambda>column_names. ret (column_names, probed))) ?finish"
    have ct: "create_target env dataset schema_name table_name urls geometry_type
             primary_key False [Connect db_url, PlanRequests dataset] =
        bind (lift (define_table env schema_name table_name (td_schema td)
                             (upper t) (comments td) primary_key False))
                 (\<lambda>column_names. ret (column_names, probed)) ?T"
    proof -
      have pk': "(truthy_str primary_key
          \<and> upper (the primary_key) \<notin> (\<lambda>c. upper (column_name c)) ` set (td_schema td)) = False"
        using pk by simp
      show ?thesis
        unfolding create_target_def
        using ok
        by (simp add: bind_emit assms(5,6) bind_lift_Inr bind_def [of "resolve_geometry_type _ _ _"]
            assms(7) pk' Let_def)
    qed
    have eq: "bc2pg env dataset0 db_url table schema geometry_type query count sortby primary_key
       timestamp schema_only False = ?rest ?T"
      unfolding start by (simp add: bind_def [of "create_target _ _ _ _ _ _ _ _"] ct)
        (simp add: bind_def)
    have ext: "extends ?rest"
      by (intro extends_intros extends_load_chunks extends_log_download)
    have tk: "take (Suc (length trace)) (fst (?rest ?T)) = ?T"
      by (rule take_extends_n [OF ext]) simp
    show "take (Suc (length trace))
       (fst (bc2pg env dataset0 db_url table schema geometry_type query count sortby primary_key
          timestamp schema_only False)) = ?T"
      by (simp only: eq tk)
  }
qed

lemma outage_validate_upper: "validate_name (outage_env result) ''WHSE.T'' = Inr ''WHSE.T''"
  by (simp add: validate_name_def outage_env_def example_env_def upper_def upper_char_def)

lemma outage_plan_exits:
  "define_requests (outage_env (Response 503 [])) ''WHSE.T'' query crs bounds bounds_crs count
     sortby pagesize = Inl (SystemExit (HTTPError 503))"
proof -
  have "get_count (outage_env (Response 503 [])) ''WHSE.T'' query = Inl (SystemExit (HTTPError 503))"
    by (simp add: get_count_def outage_validate_upper)
      (simp add: outage_env_def example_env_def raise_for_status_def)
  then show ?thesis
    by (simp add: define_requests_def request_dicts_def outage_validate_upper)
qed

lemma example_target: "target_names ''WHSE.T'' None None = Inr (''whse'', ''t'')"
  by (simp add: target_names_def unpack2_def lower_def lower_char_def truthy_str_def)

lemma example_tables: "tables example_db = [''whse.t'']"
  by (simp add: tables_def schemas_def example_db_def)

lemma example_loader_validate:
  "validate_name (wfs (example_loader n df)) ''whse.t'' = Inr ''WHSE.T''"
  by (simp add: example_loader_def example_validate)

lemma example_validate_upper: "validate_name (example_env n) ''WHSE.T'' = Inr ''WHSE.T''"
  by (simp add: validate_name_def example_env_def upper_def upper_char_def)

lemma example_loader_plan:
  "define_requests (wfs (example_loader 7 df)) ''WHSE.T'' None ''epsg:3005'' None ''EPSG:3005''
      None None 10000 =
   Inr [request_url (example_env 7)
          [(''service'', Str ''WFS''), (''version'', Str ''2.0.0''),
           (''request'', Str ''GetFeature''), (''typeName'', Str ''WHSE.T''),
           (''outputFormat'', Str ''json''), (''SRSNAME'', Str ''epsg:3005''),
           (''count'', Num 7)]]"
  by (simp add: example_loader_def define_requests_def
      request_dicts_eq [OF example_validate_upper example_count example_get_schema]
      effective_count_def truthy_int_def chunk_count_examples truthy_str_def py_range_def
      request_filter_def truthy_seq_def base_request_def request_window_def setitem_def)

lemma example_loader_fields:
  "connect (example_loader n df) url = Inr example_db"
  "make_requests (example_loader n df) url = Inr df"
  "get_table_definition (example_loader n df) name =
     Inr \<lparr> td_schema = [\<lparr> column_name = ''FEATURE_ID'', data_type = ''NUMBER'' \<rparr>,
                        \<lparr> column_name = ''NAME'', data_type = ''VARCHAR2'' \<rparr>],
           comments = [] \<rparr>"
  by (simp_all add: example_loader_def)

lemma example_td_nonempty:
  "td_schema \<lparr> td_schema = [\<lparr> column_name = ''FEATURE_ID'', data_type = ''NUMBER'' \<rparr>,
                        \<lparr> column_name = ''NAME'', data_type = ''VARCHAR2'' \<rparr>],
           comments = [] \<rparr> \<noteq> []"
  by simp
section \<open>The request planner\<close>

text \<open>
  Claim C1, as amended. For a count \<open>e\<close> to plan for (the total count of the service when
  no smaller maximum is asked for) with \<open>1 \<le> e < 2 ^ 53\<close> and a page size \<open>p\<close> with
  \<open>1 \<le> p < 2 ^ 1075\<close>, \<^verbatim>\<open>define_requests\<close> returns exactly \<open>\<lceil>e / p\<rceil>\<close> requests. Their
  windows (first index, count), in the order of the list, each start where the one
  before ends, the first at 0 and the last ending at \<open>e\<close>; together they are exactly the
  indices from 0 up to \<open>e\<close>, no two of them share an index, and their counts add up to
  \<open>e\<close>. The name, the count request and the schema request are taken to succeed, the
  schema to declare a column and the bounds, if given, to hold four coordinates.
\<close>

theorem define_requests_windows_partition:
  assumes "validate_name env dataset = Inr table"
    and "get_count env table query = Inr n"
    and "get_schema env (''pub:'' @ table) = Inr schema"
    and "properties schema \<noteq> []"
    and "bounds_wellformed bounds"
    and "effective_count count n = e"
    and "1 \<le> e" and "1 \<le> p"
    and "e < 2 ^ 53" and "p < 2 ^ 1075"
  shows "\<exists>rs ws.
     request_dicts env dataset query crs bounds bounds_crs count sortby p = Inr rs
     \<and> define_requests env dataset query crs bounds bounds_crs count sortby p
         = Inr (map (request_url env) rs)
     \<and> int (length rs) = \<lceil>real_of_int e / real_of_int p\<rceil>
     \<and> map window rs = map Some ws
     \<and> tiles 0 ws e
     \<and> (\<Union>(s, c) \<in> set ws. {s..<s + c}) = {0..<e}
     \<and> (\<forall>k<length ws. \<forall>j<k.
           {fst (ws ! j)..<fst (ws ! j) + snd (ws ! j)}
             \<inter> {fst (ws ! k)..<fst (ws ! k) + snd (ws ! k)} = {})
     \<and> sum_list (map snd ws) = e"
proof -
  obtain m where m: "chunk_count e p = Inr m" and mdef: "m = \<lceil>real_of_int e / real_of_int p\<rceil>"
    using chunk_count_exact [OF assms(7) assms(9) assms(8) assms(10)] by simp
  obtain sb where sb: "(if m > 1 \<and> \<not> truthy_str sortby
            then map_sum id Some (get_sortkey table schema) else Inr sortby) = Inr sb"
  proof -
    have "\<exists>key. get_sortkey table schema = Inr key"
      using assms(4) by (cases "properties schema") (simp_all add: get_sortkey_def Let_def)
    then have "\<exists>sb. (if m > 1 \<and> \<not> truthy_str sortby
            then map_sum id Some (get_sortkey table schema) else Inr sortby) = Inr sb"
      by auto
    then show ?thesis using that by blast
  qed
  obtain req0 where req0:
    "request_filter query bounds bounds_crs (geometry_column schema) (base_request table crs sb) = Inr req0"
    using request_filter_total [OF assms(5)] by blast
  have p: "0 < p" and e: "0 < e" using assms(7,8) by simp_all
  from chunk_count_bounds [OF p mdef] e p have mpos: "\<not> m \<le> 0"
    by (smt (verit) mult_nonneg_nonpos2 mult.commute mult_le_0_iff)
  define rs where "rs = map (\<lambda>i. request_window e p m i req0) (py_range m)"
  have plan: "request_dicts env dataset query crs bounds bounds_crs count sortby p = Inr rs"
    by (simp add: request_dicts_eq [OF assms(1-3)] assms(6) m sb req0 mpos rs_def)
  from windows_of_plan [OF p e mdef filtered_no_window(1) [OF req0]]
  obtain ws where ws: "map window rs = map Some ws" "tiles 0 ws e" "int (length ws) = m"
    unfolding rs_def by blast
  have "length rs = length ws"
    using ws(1) by (metis length_map)
  with ws(3) mdef have len: "int (length rs) = \<lceil>real_of_int e / real_of_int p\<rceil>" by simp
  have url: "define_requests env dataset query crs bounds bounds_crs count sortby p
         = Inr (map (request_url env) rs)"
    by (simp add: define_requests_def plan)
  have cover: "(\<Union>(s, c) \<in> set ws. {s..<s + c}) = {0..<e}"
    by (rule tiles_cover [OF ws(2)])
  have disj: "\<forall>k<length ws. \<forall>j<k.
           {fst (ws ! j)..<fst (ws ! j) + snd (ws ! j)}
             \<inter> {fst (ws ! k)..<fst (ws ! k) + snd (ws ! k)} = {}"
    using tiles_disjoint [OF ws(2)] by blast
  have total: "sum_list (map snd ws) = e"
    using tiles_sum [OF ws(2)] by simp
  from plan url len ws(1,2) cover disj total show ?thesis by blast
qed

theorem define_requests_windows_partition_witness:
  "validate_name (example_env 25000) ''whse.t'' = Inr ''WHSE.T''
   \<and> get_count (example_env 25000) ''WHSE.T'' None = Inr 25000
   \<and> get_schema (example_env 25000) (''pub:'' @ ''WHSE.T'') = Inr example_schema
   \<and> properties example_schema \<noteq> []
   \<and> bounds_wellformed None
   \<and> effective_count None 25000 = 25000
   \<and> (1::int) \<le> 25000 \<and> (1::int) \<le> 10000
   \<and> (25000::int) < 2 ^ 53 \<and> (10000::int) < 2 ^ 1075
   \<and> (\<exists>rs ws.
     request_dicts (example_env 25000) ''whse.t'' None ''epsg:4326'' None ''EPSG:3005'' None None 10000
       = Inr rs
     \<and> define_requests (example_env 25000) ''whse.t'' None ''epsg:4326'' None ''EPSG:3005'' None None 10000
         = Inr (map (request_url (example_env 25000)) rs)
     \<and> int (length rs) = \<lceil>real_of_int 25000 / real_of_int 10000\<rceil>
     \<and> map window rs = map Some ws
     \<and> tiles 0 ws 25000
     \<and> (\<Union>(s, c) \<in> set ws. {s..<s + c}) = {0..<25000}
     \<and> (\<forall>k<length ws. \<forall>j<k.
           {fst (ws ! j)..<fst (ws ! j) + snd (ws ! j)}
             \<inter> {fst (ws ! k)..<fst (ws ! k) + snd (ws ! k)} = {})
     \<and> sum_list (map snd ws) = 25000)"
proof -
  have v: "validate_name (example_env 25000) ''whse.t'' = Inr ''WHSE.T''"
    by (simp add: validate_name_def example_env_def upper_def upper_char_def)
  have c: "get_count (example_env 25000) ''WHSE.T'' None = Inr 25000"
    by (simp add: get_count_def validate_name_def example_env_def upper_def upper_char_def
        raise_for_status_def)
  have s: "get_schema (example_env 25000) (''pub:'' @ ''WHSE.T'') = Inr example_schema"
    by (simp add: example_env_def)
  have q: "properties example_schema \<noteq> []"
    by (simp add: example_schema_def)
  have b: "bounds_wellformed None"
    by (simp add: bounds_wellformed_def truthy_seq_def)
  have e: "effective_count None 25000 = 25000"
    by (simp add: effective_count_def truthy_int_def)
  from define_requests_windows_partition [OF v c s q b e, of 10000 "''epsg:4326''" "''EPSG:3005''" None]
  show ?thesis using v c s q b e by simp
qed

text \<open>
  Claim C1 as stated holds for every count and every page size. The number of chunks is
  \<^verbatim>\<open>math.ceil\<close> of a double. For \<open>2 ^ 53 + 1\<close> features in pages of \<open>2 ^ 53\<close> the exact
  quotient lies halfway between the doubles \<open>1\<close> and \<open>1 + 2 ^ (- 52)\<close> and is rounded to
  \<open>1\<close>: the plan is one request for all \<open>2 ^ 53 + 1\<close> features, where the claim has two
  requests. For one feature and the page size \<open>2 ^ 1080\<close> the quotient is rounded to
  \<open>0.0\<close>: the plan is empty, where the claim has one request.
\<close>

theorem one_request_beyond_double_precision:
  "\<lceil>real_of_int (2 ^ 53 + 1) / real_of_int (2 ^ 53)\<rceil> = (2::int)
   \<and> request_dicts (example_env (2 ^ 53 + 1)) ''whse.t'' None ''epsg:4326'' None ''EPSG:3005''
        None None (2 ^ 53) =
       Inr [[(''service'', Str ''WFS''), (''version'', Str ''2.0.0''),
             (''request'', Str ''GetFeature''), (''typeName'', Str ''WHSE.T''),
             (''outputFormat'', Str ''json''), (''SRSNAME'', Str ''epsg:4326''),
             (''count'', Num (2 ^ 53 + 1))]]
   \<and> map_sum id length
        (define_requests (example_env (2 ^ 53 + 1)) ''whse.t'' None ''epsg:4326'' None ''EPSG:3005''
           None None (2 ^ 53)) = Inr 1
   \<and> \<lceil>real_of_int 1 / real_of_int (2 ^ 1080)\<rceil> = (1::int)
   \<and> request_dicts (example_env 1) ''whse.t'' None ''epsg:4326'' None ''EPSG:3005''
        None None (2 ^ 1080) = Inr []
   \<and> define_requests (example_env 1) ''whse.t'' None ''epsg:4326'' None ''EPSG:3005''
        None None (2 ^ 1080) = Inr []"
proof -
  have 1: "\<lceil>real_of_int (2 ^ 53 + 1) / real_of_int (2 ^ 53)\<rceil> = (2::int)"
    by simp
  have 2: "request_dicts (example_env (2 ^ 53 + 1)) ''whse.t'' None ''epsg:4326'' None ''EPSG:3005''
        None None (2 ^ 53) =
       Inr [[(''service'', Str ''WFS''), (''version'', Str ''2.0.0''),
             (''request'', Str ''GetFeature''), (''typeName'', Str ''WHSE.T''),
             (''outputFormat'', Str ''json''), (''SRSNAME'', Str ''epsg:4326''),
             (''count'', Num (2 ^ 53 + 1))]]"
    by (simp add:
      request_dicts_eq [OF example_validate example_count example_get_schema]
      effective_count_def truthy_int_def chunk_count_above_mantissa [simplified]
      truthy_str_def py_range_def
      request_filter_def truthy_seq_def base_request_def request_window_def setitem_def)
  have 3: "map_sum id length
        (define_requests (example_env (2 ^ 53 + 1)) ''whse.t'' None ''epsg:4326'' None ''EPSG:3005''
           None None (2 ^ 53)) = Inr 1"
    unfolding define_requests_def 2 by simp
  have 4: "\<lceil>real_of_int 1 / real_of_int (2 ^ 1080)\<rceil> = (1::int)"
    by (rule ceiling_unique) simp_all
  have 5: "request_dicts (example_env 1) ''whse.t'' None ''epsg:4326'' None ''EPSG:3005''
        None None (2 ^ 1080) = Inr []"
    by (simp add:
      request_dicts_eq [OF example_validate example_count example_get_schema]
      effective_count_def truthy_int_def chunk_count_underflow [simplified]
      truthy_str_def py_range_def)
  have 6: "define_requests (example_env 1) ''whse.t'' None ''epsg:4326'' None ''EPSG:3005''
        None None (2 ^ 1080) = Inr []"
    unfolding define_requests_def 5 by simp
  from 1 2 3 4 5 6 show ?thesis by blast
qed

text \<open>
  Claim C2, as amended. Whenever the count \<open>e\<close> to plan for is at least 1 and at most the
  page size, and the page size is below \<open>2 ^ 1075\<close> (so that there is one chunk),
  \<^verbatim>\<open>define_requests\<close> returns exactly one request; it carries \<^verbatim>\<open>count = e\<close> and no
  \<^verbatim>\<open>startIndex\<close>.
\<close>

theorem single_chunk_explicit_count:
  assumes "validate_name env dataset = Inr table"
    and "get_count env table query = Inr n"
    and "get_schema env (''pub:'' @ table) = Inr schema"
    and "bounds_wellformed bounds"
    and "effective_count count n = e"
    and "1 \<le> e" and "e \<le> p" and "p < 2 ^ 1075"
  shows "\<exists>r.
     request_dicts env dataset query crs bounds bounds_crs count sortby p = Inr [r]
     \<and> define_requests env dataset query crs bounds bounds_crs count sortby p
         = Inr [request_url env r]
     \<and> getitem r ''count'' = Some (Num e)
     \<and> getitem r ''startIndex'' = None"
proof -
  have m: "chunk_count e p = Inr 1" using assms(6,7,8) by (rule chunk_count_single)
  obtain req0 where req0:
    "request_filter query bounds bounds_crs (geometry_column schema)
       (base_request table crs sortby) = Inr req0"
    using request_filter_total [OF assms(4)] by blast
  define r where "r = request_window e p 1 0 req0"
  have plan: "request_dicts env dataset query crs bounds bounds_crs count sortby p = Inr [r]"
    by (simp add: request_dicts_eq [OF assms(1-3)] assms(5) m req0 r_def py_range_def)
  have url: "define_requests env dataset query crs bounds bounds_crs count sortby p
         = Inr [request_url env r]"
    by (simp add: define_requests_def plan)
  have c: "getitem r ''count'' = Some (Num e)"
    by (simp add: r_def request_window_def getitem_setitem)
  have s: "getitem r ''startIndex'' = None"
    using filtered_no_window(1) [OF req0]
    by (simp add: r_def request_window_def getitem_setitem)
  from plan url c s show ?thesis by blast
qed

theorem single_chunk_explicit_count_witness:
  "validate_name (example_env 7) ''whse.t'' = Inr ''WHSE.T''
   \<and> get_count (example_env 7) ''WHSE.T'' None = Inr 7
   \<and> get_schema (example_env 7) (''pub:'' @ ''WHSE.T'') = Inr example_schema
   \<and> bounds_wellformed None
   \<and> effective_count None 7 = 7
   \<and> (1::int) \<le> 7 \<and> (7::int) \<le> 10000 \<and> (10000::int) < 2 ^ 1075
   \<and> (\<exists>r.
     request_dicts (example_env 7) ''whse.t'' None ''epsg:4326'' None ''EPSG:3005'' None None 10000
       = Inr [r]
     \<and> define_requests (example_env 7) ''whse.t'' None ''epsg:4326'' None ''EPSG:3005'' None None 10000
         = Inr [request_url (example_env 7) r]
     \<and> getitem r ''count'' = Some (Num 7)
     \<and> getitem r ''startIndex'' = None)"
proof -
  have v: "validate_name (example_env 7) ''whse.t'' = Inr ''WHSE.T''"
    by (simp add: validate_name_def example_env_def upper_def upper_char_def)
  have c: "get_count (example_env 7) ''WHSE.T'' None = Inr 7"
    by (simp add: get_count_def validate_name_def example_env_def upper_def upper_char_def
        raise_for_status_def)
  have s: "get_schema (example_env 7) (''pub:'' @ ''WHSE.T'') = Inr example_schema"
    by (simp add: example_env_def)
  have b: "bounds_wellformed None"
    by (simp add: bounds_wellformed_def truthy_seq_def)
  have e: "effective_count None 7 = 7"
    by (simp add: effective_count_def truthy_int_def)
  from single_chunk_explicit_count [OF v c s b e, of 10000 "''epsg:4326''" "''EPSG:3005''" None]
  show ?thesis using v c s b e by simp
qed

text \<open>
  Claim C2 as stated asks for one request whenever the count is at most the page size.
  A query that matches no feature has the count 0: then the quotient is \<open>0.0\<close>, the loop
  body never runs and the plan is empty. The plan is empty too for one feature and the
  page size \<open>2 ^ 1080\<close>, where the quotient is too small for a double and is rounded to
  \<open>0.0\<close>.
\<close>

theorem empty_result_no_request:
  "effective_count None 0 = 0 \<and> (0::int) \<le> 10000
   \<and> request_dicts (example_env 0) ''whse.t'' None ''epsg:4326'' None ''EPSG:3005'' None None 10000
       = Inr []
   \<and> define_requests (example_env 0) ''whse.t'' None ''epsg:4326'' None ''EPSG:3005'' None None 10000
       = Inr []
   \<and> effective_count None 1 = 1 \<and> (1::int) \<le> 2 ^ 1080
   \<and> request_dicts (example_env 1) ''whse.t'' None ''epsg:4326'' None ''EPSG:3005'' None None
        (2 ^ 1080) = Inr []
   \<and> define_requests (example_env 1) ''whse.t'' None ''epsg:4326'' None ''EPSG:3005'' None None
        (2 ^ 1080) = Inr []"
proof -
  have 1: "effective_count None 0 = 0" "effective_count None 1 = 1"
    by (simp_all add: effective_count_def truthy_int_def)
  have 2: "request_dicts (example_env 0) ''whse.t'' None ''epsg:4326'' None ''EPSG:3005'' None None 10000
       = Inr []"
    by (simp add:
      request_dicts_eq [OF example_validate example_count example_get_schema]
      effective_count_def truthy_int_def chunk_count_examples truthy_str_def py_range_def)
  have 3: "request_dicts (example_env 1) ''whse.t'' None ''epsg:4326'' None ''EPSG:3005'' None None
        (2 ^ 1080) = Inr []"
    by (simp add:
      request_dicts_eq [OF example_validate example_count example_get_schema]
      effective_count_def truthy_int_def chunk_count_underflow [simplified]
      truthy_str_def py_range_def)
  have 4: "define_requests (example_env 0) ''whse.t'' None ''epsg:4326'' None ''EPSG:3005'' None None 10000
       = Inr []"
    unfolding define_requests_def 2 by simp
  have 5: "define_requests (example_env 1) ''whse.t'' None ''epsg:4326'' None ''EPSG:3005'' None None
        (2 ^ 1080) = Inr []"
    unfolding define_requests_def 3 by simp
  have 6: "(0::int) \<le> 10000" "(1::int) \<le> 2 ^ 1080" by simp_all
  from 1 2 3 4 5 6 show ?thesis by blast
qed

text \<open>
  Claim C3 at the maximum count 0 and a service holding 25000 features: the claim has
  the plan made for \<open>min 0 25000 = 0\<close> features, the code (for which \<^verbatim>\<open>not count\<close> is
  true at 0) plans for all 25000 and, with a page of 30000, asks for them in one request.
\<close>

theorem zero_count_plans_every_feature:
  "effective_count (Some 0) 25000 = 25000 \<and> min 0 25000 = (0::int)
   \<and> request_dicts (example_env 25000) ''whse.t'' None ''epsg:4326'' None ''EPSG:3005''
        (Some 0) None 30000 =
       Inr [[(''service'', Str ''WFS''), (''version'', Str ''2.0.0''),
             (''request'', Str ''GetFeature''), (''typeName'', Str ''WHSE.T''),
             (''outputFormat'', Str ''json''), (''SRSNAME'', Str ''epsg:4326''),
             (''count'', Num 25000)]]"
  by (simp add: 
      request_dicts_eq [OF example_validate example_count example_get_schema]
      effective_count_def truthy_int_def chunk_count_examples truthy_str_def py_range_def
      request_filter_def truthy_seq_def base_request_def request_window_def setitem_def)

theorem zero_count_plans_every_feature_witness:
  "effective_count (Some 0) 25000 \<noteq> min 0 25000"
  using zero_count_plans_every_feature by simp

text \<open>
  Claim C4, as amended. When the plan has more than one chunk and no sort key is
  supplied (\<^verbatim>\<open>None\<close> or the empty string), \<^verbatim>\<open>get_sortkey\<close> selects the column \<^verbatim>\<open>OBJECTID\<close>
  if the schema declares it, else \<^verbatim>\<open>SEQUENCE_ID\<close> if the schema declares it, else the
  first declared column, and every request of the plan carries the selected name
  converted to upper case (line 188) as its \<^verbatim>\<open>sortby\<close>; a selected name that is the empty
  string is false for \<^verbatim>\<open>if sortby\<close> and is not attached. The schema is taken to declare a
  column.
\<close>

theorem auto_sortkey_precedence:
  assumes "validate_name env dataset = Inr table"
    and "get_count env table query = Inr n"
    and "get_schema env (''pub:'' @ table) = Inr schema"
    and "bounds_wellformed bounds"
    and "chunk_count (effective_count count n) p = Inr chunks"
    and "1 < chunks"
    and "\<not> truthy_str sortby"
    and "properties schema \<noteq> []"
  shows "\<exists>rs key.
     request_dicts env dataset query crs bounds bounds_crs count sortby p = Inr rs
     \<and> int (length rs) = chunks
     \<and> get_sortkey table schema = Inr key
     \<and> key = (if ''OBJECTID'' \<in> fst ` set (properties schema) then ''OBJECTID''
              else if ''SEQUENCE_ID'' \<in> fst ` set (properties schema) then ''SEQUENCE_ID''
              else fst (hd (properties schema)))
     \<and> (\<forall>r \<in> set rs.
          getitem r ''sortby'' = (if key = [] then None else Some (Str (upper key))))"
proof -
  define key where "key = (if ''OBJECTID'' \<in> fst ` set (properties schema) then ''OBJECTID''
              else if ''SEQUENCE_ID'' \<in> fst ` set (properties schema) then ''SEQUENCE_ID''
              else fst (hd (properties schema)))"
  have k: "get_sortkey table schema = Inr key"
    unfolding key_def by (rule get_sortkey_precedence [OF assms(8)])
  obtain req0 where req0:
    "request_filter query bounds bounds_crs (geometry_column schema)
       (base_request table crs (Some key)) = Inr req0"
    using request_filter_total [OF assms(4)] by blast
  define rs where
    "rs = map (\<lambda>i. request_window (effective_count count n) p chunks i req0) (py_range chunks)"
  have plan: "request_dicts env dataset query crs bounds bounds_crs count sortby p = Inr rs"
    using assms(6,7)
    by (simp add: request_dicts_eq [OF assms(1-3)] assms(5) k req0 rs_def)
  have len: "int (length rs) = chunks"
    using assms(6) by (simp add: rs_def py_range_def)
  have "getitem req0 ''sortby'' = (if key = [] then None else Some (Str (upper key)))"
    using getitem_request_filter [OF req0, of "''sortby''"]
    by (simp add: getitem_base_request truthy_str_def)
  then have sorted: "\<forall>r \<in> set rs.
      getitem r ''sortby'' = (if key = [] then None else Some (Str (upper key)))"
    by (auto simp add: rs_def getitem_request_window)
  from plan len k sorted show ?thesis unfolding key_def by blast
qed

theorem auto_sortkey_precedence_witness:
  "validate_name (example_env 25000) ''whse.t'' = Inr ''WHSE.T''
   \<and> get_count (example_env 25000) ''WHSE.T'' None = Inr 25000
   \<and> get_schema (example_env 25000) (''pub:'' @ ''WHSE.T'') = Inr example_schema
   \<and> bounds_wellformed None
   \<and> chunk_count (effective_count None 25000) 10000 = Inr 3
   \<and> (1::int) < 3
   \<and> \<not> truthy_str None
   \<and> properties example_schema \<noteq> []
   \<and> (\<exists>rs.
     request_dicts (example_env 25000) ''whse.t'' None ''epsg:4326'' None ''EPSG:3005'' None None 10000
       = Inr rs
     \<and> int (length rs) = 3
     \<and> get_sortkey ''WHSE.T'' example_schema = Inr ''FEATURE_ID''
     \<and> (\<forall>r \<in> set rs. getitem r ''sortby'' = Some (Str ''FEATURE_ID'')))"
proof -
  have b: "bounds_wellformed None"
    by (simp add: bounds_wellformed_def truthy_seq_def)
  have m: "chunk_count (effective_count None 25000) 10000 = Inr 3"
    by (simp add: effective_count_def truthy_int_def chunk_count_examples)
  have t: "\<not> truthy_str None"
    by (simp add: truthy_str_def)
  have q: "properties example_schema \<noteq> []"
    by (simp add: example_schema_def)
  have u: "upper ''FEATURE_ID'' = ''FEATURE_ID''"
    by (simp add: upper_def upper_char_def)
  have k: "(if ''OBJECTID'' \<in> fst ` set (properties example_schema) then ''OBJECTID''
              else if ''SEQUENCE_ID'' \<in> fst ` set (properties example_schema) then ''SEQUENCE_ID''
              else fst (hd (properties example_schema))) = ''FEATURE_ID''"
    by (simp add: example_schema_def)
  from auto_sortkey_precedence [OF example_validate example_count [of 25000 None] example_get_schema b m _ t q,
      where crs = "''epsg:4326''" and bounds_crs = "''EPSG:3005''"]
  obtain rs key where
    plan: "request_dicts (example_env 25000) ''whse.t'' None ''epsg:4326'' None ''EPSG:3005'' None None 10000
       = Inr rs"
    and len: "int (length rs) = 3"
    and sk: "get_sortkey ''WHSE.T'' example_schema = Inr key"
    and key: "key = (if ''OBJECTID'' \<in> fst ` set (properties example_schema) then ''OBJECTID''
              else if ''SEQUENCE_ID'' \<in> fst ` set (properties example_schema) then ''SEQUENCE_ID''
              else fst (hd (properties example_schema)))"
    and sorted: "\<forall>r \<in> set rs.
      getitem r ''sortby'' = (if key = [] then None else Some (Str (upper key)))"
    by auto
  have key': "key = ''FEATURE_ID''" using key k by simp
  have sorted': "\<forall>r \<in> set rs. getitem r ''sortby'' = Some (Str ''FEATURE_ID'')"
    using sorted unfolding key' u by simp
  have "\<exists>rs.
     request_dicts (example_env 25000) ''whse.t'' None ''epsg:4326'' None ''EPSG:3005'' None None 10000
       = Inr rs
     \<and> int (length rs) = 3
     \<and> get_sortkey ''WHSE.T'' example_schema = Inr ''FEATURE_ID''
     \<and> (\<forall>r \<in> set rs. getitem r ''sortby'' = Some (Str ''FEATURE_ID''))"
    using plan len sk sorted' unfolding key' by blast
  then show ?thesis
    using example_validate [of 25000] example_count [of 25000 None] example_get_schema [of 25000]
      b m t q
    by simp
qed

text \<open>
  Claim C4 as stated attaches the selected column. Line 188 attaches
  \<^verbatim>\<open>sortby.upper()\<close>: over a schema whose first column is \<^verbatim>\<open>fid\<close> (and that declares neither
  \<^verbatim>\<open>OBJECTID\<close> nor \<^verbatim>\<open>SEQUENCE_ID\<close>) the selected column is \<^verbatim>\<open>fid\<close> and every request carries
  \<^verbatim>\<open>FID\<close>, which is not a column of the schema. Over a schema whose first column has the
  empty name the selected name is false for \<^verbatim>\<open>if sortby\<close> and no request carries a sort
  key.
\<close>

theorem lowercase_column_attached_in_upper_case:
  "get_sortkey ''WHSE.T'' lowercase_schema = Inr ''fid''
   \<and> ''FID'' \<notin> fst ` set (properties lowercase_schema)
   \<and> request_dicts (schema_env lowercase_schema 25000) ''whse.t'' None ''epsg:4326'' None
        ''EPSG:3005'' None None 20000 =
       Inr [[(''service'', Str ''WFS''), (''version'', Str ''2.0.0''),
             (''request'', Str ''GetFeature''), (''typeName'', Str ''WHSE.T''),
             (''outputFormat'', Str ''json''), (''SRSNAME'', Str ''epsg:4326''),
             (''sortby'', Str ''FID''), (''startIndex'', Num 0), (''count'', Num 20000)],
            [(''service'', Str ''WFS''), (''version'', Str ''2.0.0''),
             (''request'', Str ''GetFeature''), (''typeName'', Str ''WHSE.T''),
             (''outputFormat'', Str ''json''), (''SRSNAME'', Str ''epsg:4326''),
             (''sortby'', Str ''FID''), (''startIndex'', Num 20000), (''count'', Num 5000)]]
   \<and> get_sortkey ''WHSE.T'' unnamed_schema = Inr []
   \<and> request_dicts (schema_env unnamed_schema 25000) ''whse.t'' None ''epsg:4326'' None
        ''EPSG:3005'' None None 20000 =
       Inr [[(''service'', Str ''WFS''), (''version'', Str ''2.0.0''),
             (''request'', Str ''GetFeature''), (''typeName'', Str ''WHSE.T''),
             (''outputFormat'', Str ''json''), (''SRSNAME'', Str ''epsg:4326''),
             (''startIndex'', Num 0), (''count'', Num 20000)],
            [(''service'', Str ''WFS''), (''version'', Str ''2.0.0''),
             (''request'', Str ''GetFeature''), (''typeName'', Str ''WHSE.T''),
             (''outputFormat'', Str ''json''), (''SRSNAME'', Str ''epsg:4326''),
             (''startIndex'', Num 20000), (''count'', Num 5000)]]"
proof -
  have u: "upper ''fid'' = ''FID''"
    by (simp add: upper_def upper_char_def)
  have r: "py_range 2 = [0, 1]"
    by (simp add: py_range_def upt_conv_Cons)
  have 1: "get_sortkey ''WHSE.T'' lowercase_schema = Inr ''fid''"
    by (simp add: get_sortkey_def lowercase_schema_def)
  have 2: "''FID'' \<notin> fst ` set (properties lowercase_schema)"
    by (simp add: lowercase_schema_def)
  have 3: "request_dicts (schema_env lowercase_schema 25000) ''whse.t'' None ''epsg:4326'' None
        ''EPSG:3005'' None None 20000 =
       Inr [[(''service'', Str ''WFS''), (''version'', Str ''2.0.0''),
             (''request'', Str ''GetFeature''), (''typeName'', Str ''WHSE.T''),
             (''outputFormat'', Str ''json''), (''SRSNAME'', Str ''epsg:4326''),
             (''sortby'', Str ''FID''), (''startIndex'', Num 0), (''count'', Num 20000)],
            [(''service'', Str ''WFS''), (''version'', Str ''2.0.0''),
             (''request'', Str ''GetFeature''), (''typeName'', Str ''WHSE.T''),
             (''outputFormat'', Str ''json''), (''SRSNAME'', Str ''epsg:4326''),
             (''sortby'', Str ''FID''), (''startIndex'', Num 20000), (''count'', Num 5000)]]"
    by (simp add:
      request_dicts_eq [OF schema_env_validate schema_env_count schema_env_get_schema]
      effective_count_def truthy_int_def chunk_count_two truthy_str_def r u 1
      request_filter_def truthy_seq_def base_request_def request_window_def setitem_def)
  have 4: "get_sortkey ''WHSE.T'' unnamed_schema = Inr []"
    by (simp add: get_sortkey_def unnamed_schema_def)
  have 5: "request_dicts (schema_env unnamed_schema 25000) ''whse.t'' None ''epsg:4326'' None
        ''EPSG:3005'' None None 20000 =
       Inr [[(''service'', Str ''WFS''), (''version'', Str ''2.0.0''),
             (''request'', Str ''GetFeature''), (''typeName'', Str ''WHSE.T''),
             (''outputFormat'', Str ''json''), (''SRSNAME'', Str ''epsg:4326''),
             (''startIndex'', Num 0), (''count'', Num 20000)],
            [(''service'', Str ''WFS''), (''version'', Str ''2.0.0''),
             (''request'', Str ''GetFeature''), (''typeName'', Str ''WHSE.T''),
             (''outputFormat'', Str ''json''), (''SRSNAME'', Str ''epsg:4326''),
             (''startIndex'', Num 20000), (''count'', Num 5000)]]"
    by (simp add:
      request_dicts_eq [OF schema_env_validate schema_env_count schema_env_get_schema]
      effective_count_def truthy_int_def chunk_count_two truthy_str_def r 4
      request_filter_def truthy_seq_def base_request_def request_window_def setitem_def)
  from 1 2 3 4 5 show ?thesis by blast
qed

text \<open>
  Claim C5. In every request of a plan: when bounds are given, \<^verbatim>\<open>CQL_FILTER\<close> is the text
  \<^verbatim>\<open>bbox(\<close>geometry column\<^verbatim>\<open>, \<close>b0\<^verbatim>\<open>, \<close>b1\<^verbatim>\<open>, \<close>b2\<^verbatim>\<open>, \<close>b3\<^verbatim>\<open>, '\<close>bounds crs\<^verbatim>\<open>')\<close> on the geometry
  column of the schema, after the user's filter and \<^verbatim>\<open> AND \<close> when a filter is given too;
  when only a filter is given, \<^verbatim>\<open>CQL_FILTER\<close> is that filter unchanged; with neither there
  is no \<^verbatim>\<open>CQL_FILTER\<close>. The keys of a request are among the ten the function sets, so no
  request has a \<^verbatim>\<open>bbox\<close> parameter.
\<close>

theorem bounds_emitted_as_cql_filter:
  assumes "validate_name env dataset = Inr table"
    and "get_count env table query = Inr n"
    and "get_schema env (''pub:'' @ table) = Inr schema"
    and "request_dicts env dataset query crs bounds bounds_crs count sortby p = Inr rs"
    and "r \<in> set rs"
  shows "(truthy_seq bounds \<longrightarrow>
           (\<exists>b0 b1 b2 b3. bounds = Some [b0, b1, b2, b3]
              \<and> getitem r ''CQL_FILTER'' =
                  Some (Str (if truthy_str query
                             then the query @ '' AND ''
                                    @ ''bbox('' @ geometry_column schema @ '', '' @ b0 @ '', ''
                                    @ b1 @ '', '' @ b2 @ '', '' @ b3 @ '', '' @ [CHR 0x27]
                                    @ bounds_crs @ [CHR 0x27] @ '')''
                             else ''bbox('' @ geometry_column schema @ '', '' @ b0 @ '', ''
                                    @ b1 @ '', '' @ b2 @ '', '' @ b3 @ '', '' @ [CHR 0x27]
                                    @ bounds_crs @ [CHR 0x27] @ '')''))))
     \<and> (\<not> truthy_seq bounds \<and> truthy_str query \<longrightarrow>
           getitem r ''CQL_FILTER'' = Some (Str (the query)))
     \<and> (\<not> truthy_seq bounds \<and> \<not> truthy_str query \<longrightarrow> getitem r ''CQL_FILTER'' = None)
     \<and> fst ` set r \<subseteq>
          {''service'', ''version'', ''request'', ''typeName'', ''outputFormat'', ''SRSNAME'',
           ''sortby'', ''CQL_FILTER'', ''startIndex'', ''count''}
     \<and> getitem r ''bbox'' = None \<and> getitem r ''BBOX'' = None"
proof -
  from request_dicts_structure [OF assms(1-4)] assms(5)
  obtain chunks sb req0 i where
    req0: "request_filter query bounds bounds_crs (geometry_column schema)
             (base_request table crs sb) = Inr req0"
    and r: "r = request_window (effective_count count n) p chunks i req0"
    by (metis (no_types, lifting) empty_iff empty_set imageE list.set_map)
  have cql: "getitem r ''CQL_FILTER'' = getitem req0 ''CQL_FILTER''"
    by (simp add: r getitem_request_window)
  have "truthy_seq bounds \<longrightarrow>
           (\<exists>b0 b1 b2 b3. bounds = Some [b0, b1, b2, b3]
              \<and> getitem req0 ''CQL_FILTER'' =
                  Some (Str (if truthy_str query
                             then the query @ '' AND ''
                                    @ bbox_query (geometry_column schema) b0 b1 b2 b3 bounds_crs
                             else bbox_query (geometry_column schema) b0 b1 b2 b3 bounds_crs)))"
    using req0
    by (cases bounds)
       (auto simp add: request_filter_def Let_def truthy_seq_def getitem_setitem
          split: if_splits list.splits)
  then have given: "truthy_seq bounds \<longrightarrow>
           (\<exists>b0 b1 b2 b3. bounds = Some [b0, b1, b2, b3]
              \<and> getitem req0 ''CQL_FILTER'' =
                  Some (Str (if truthy_str query
                             then the query @ '' AND ''
                                    @ ''bbox('' @ geometry_column schema @ '', '' @ b0 @ '', ''
                                    @ b1 @ '', '' @ b2 @ '', '' @ b3 @ '', '' @ [CHR 0x27]
                                    @ bounds_crs @ [CHR 0x27] @ '')''
                             else ''bbox('' @ geometry_column schema @ '', '' @ b0 @ '', ''
                                    @ b1 @ '', '' @ b2 @ '', '' @ b3 @ '', '' @ [CHR 0x27]
                                    @ bounds_crs @ [CHR 0x27] @ '')'')))"
    unfolding bbox_query_def .
  have only: "\<not> truthy_seq bounds \<and> truthy_str query \<longrightarrow>
           getitem req0 ''CQL_FILTER'' = Some (Str (the query))"
    using req0 by (auto simp add: request_filter_def Let_def getitem_setitem)
  have none: "\<not> truthy_seq bounds \<and> \<not> truthy_str query \<longrightarrow> getitem req0 ''CQL_FILTER'' = None"
    using req0 by (auto simp add: request_filter_def Let_def getitem_base_request)
  have keys: "fst ` set r \<subseteq>
          {''service'', ''version'', ''request'', ''typeName'', ''outputFormat'', ''SRSNAME'',
           ''sortby'', ''CQL_FILTER'', ''startIndex'', ''count''}"
    using keys_request_window [of "effective_count count n" p chunks i req0] filtered_keys [OF req0]
    unfolding r by blast
  have "''bbox'' \<notin> fst ` set r" and "''BBOX'' \<notin> fst ` set r"
    using keys by auto
  then have nobbox: "getitem r ''bbox'' = None" "getitem r ''BBOX'' = None"
    by (simp_all add: getitem_None_iff)
  from given only none keys nobbox show ?thesis unfolding cql by blast
qed

theorem bounds_emitted_as_cql_filter_witness:
  "validate_name (example_env 7) ''whse.t'' = Inr ''WHSE.T''
   \<and> get_count (example_env 7) ''WHSE.T'' (Some ''A=1'') = Inr 7
   \<and> get_schema (example_env 7) (''pub:'' @ ''WHSE.T'') = Inr example_schema
   \<and> (\<exists>rs r.
       request_dicts (example_env 7) ''whse.t'' (Some ''A=1'') ''epsg:4326''
         (Some [''1.0'', ''2.0'', ''3.0'', ''4.0'']) ''EPSG:3005'' None None 10000 = Inr rs
     \<and> r \<in> set rs
     \<and> truthy_seq (Some [''1.0'', ''2.0'', ''3.0'', ''4.0'']) \<and> truthy_str (Some ''A=1'')
     \<and> getitem r ''CQL_FILTER'' =
         Some (Str (''A=1 AND bbox(SHAPE, 1.0, 2.0, 3.0, 4.0, '' @ [CHR 0x27] @ ''EPSG:3005''
                      @ [CHR 0x27] @ '')''))
     \<and> getitem r ''bbox'' = None \<and> getitem r ''BBOX'' = None)"
proof -
  obtain rs r where
    plan: "request_dicts (example_env 7) ''whse.t'' (Some ''A=1'') ''epsg:4326''
         (Some [''1.0'', ''2.0'', ''3.0'', ''4.0'']) ''EPSG:3005'' None None 10000 = Inr rs"
    and mem: "r \<in> set rs"
    using example_plan_filtered by (metis list.set_intros(1))
  have tb: "truthy_seq (Some [''1.0'', ''2.0'', ''3.0'', ''4.0''])" and tq: "truthy_str (Some ''A=1'')"
    by (simp_all add: truthy_seq_def truthy_str_def)
  note c = bounds_emitted_as_cql_filter [OF example_validate example_count example_get_schema plan mem]
  from c tb have "\<exists>b0 b1 b2 b3. Some [''1.0'', ''2.0'', ''3.0'', ''4.0''] = Some [b0, b1, b2, b3]
              \<and> getitem r ''CQL_FILTER'' =
                  Some (Str (if truthy_str (Some ''A=1'')
                             then the (Some ''A=1'') @ '' AND ''
                                    @ ''bbox('' @ geometry_column example_schema @ '', '' @ b0 @ '', ''
                                    @ b1 @ '', '' @ b2 @ '', '' @ b3 @ '', '' @ [CHR 0x27]
                                    @ ''EPSG:3005'' @ [CHR 0x27] @ '')''
                             else ''bbox('' @ geometry_column example_schema @ '', '' @ b0 @ '', ''
                                    @ b1 @ '', '' @ b2 @ '', '' @ b3 @ '', '' @ [CHR 0x27]
                                    @ ''EPSG:3005'' @ [CHR 0x27] @ '')''))"
    by blast
  then have cql: "getitem r ''CQL_FILTER'' =
         Some (Str (''A=1 AND bbox(SHAPE, 1.0, 2.0, 3.0, 4.0, '' @ [CHR 0x27] @ ''EPSG:3005''
                      @ [CHR 0x27] @ '')''))"
    using tq by (auto simp add: example_schema_def)
  from c have nobbox: "getitem r ''bbox'' = None" "getitem r ''BBOX'' = None"
    by blast+
  show ?thesis
    using example_validate [of 7] example_count [of 7 "Some ''A=1''"] example_get_schema [of 7]
      plan mem tb tq cql nobbox
    by blast
qed

text \<open>
  Claim C10. Any two requests of one plan agree on every parameter but \<^verbatim>\<open>startIndex\<close>
  and \<^verbatim>\<open>count\<close> (so on \<^verbatim>\<open>sortby\<close> and \<^verbatim>\<open>CQL_FILTER\<close>, present or absent), and each
  carries the validated table name as \<^verbatim>\<open>typeName\<close>, the fixed \<^verbatim>\<open>service\<close>, \<^verbatim>\<open>version\<close>,
  \<^verbatim>\<open>request\<close> and \<^verbatim>\<open>outputFormat\<close>, and the \<^verbatim>\<open>crs\<close> argument as \<^verbatim>\<open>SRSNAME\<close>.
\<close>

theorem requests_share_parameters:
  assumes "validate_name env dataset = Inr table"
    and "get_count env table query = Inr n"
    and "get_schema env (''pub:'' @ table) = Inr schema"
    and "request_dicts env dataset query crs bounds bounds_crs count sortby p = Inr rs"
  shows "(\<forall>r \<in> set rs. \<forall>r' \<in> set rs. \<forall>k.
            k \<noteq> ''startIndex'' \<and> k \<noteq> ''count'' \<longrightarrow> getitem r k = getitem r' k)
     \<and> (\<forall>r \<in> set rs.
            getitem r ''typeName'' = Some (Str table)
          \<and> getitem r ''service'' = Some (Str ''WFS'')
          \<and> getitem r ''version'' = Some (Str ''2.0.0'')
          \<and> getitem r ''request'' = Some (Str ''GetFeature'')
          \<and> getitem r ''outputFormat'' = Some (Str ''json'')
          \<and> getitem r ''SRSNAME'' = Some (Str crs))"
proof -
  from request_dicts_structure [OF assms(1-4)]
  obtain chunks sb where
    rs: "rs = [] \<or> (\<exists>req0. request_filter query bounds bounds_crs (geometry_column schema)
                            (base_request table crs sb) = Inr req0
                 \<and> rs = map (\<lambda>i. request_window (effective_count count n) p chunks i req0)
                          (py_range chunks))"
    by blast
  show ?thesis
  proof (cases "rs = []")
    case True
    then show ?thesis by simp
  next
    case False
    with rs obtain req0 where
      req0: "request_filter query bounds bounds_crs (geometry_column schema)
               (base_request table crs sb) = Inr req0"
      and plan: "rs = map (\<lambda>i. request_window (effective_count count n) p chunks i req0)
                        (py_range chunks)"
      by blast
    have same: "getitem r k = getitem req0 k"
      if "r \<in> set rs" "k \<noteq> ''startIndex''" "k \<noteq> ''count''" for r k
      using that by (auto simp add: plan getitem_request_window)
    have base: "getitem req0 k = getitem (base_request table crs sb) k"
      if "k \<noteq> ''CQL_FILTER''" for k
      using getitem_request_filter [OF req0 that] .
    have 1: "\<forall>r \<in> set rs. \<forall>r' \<in> set rs. \<forall>k.
            k \<noteq> ''startIndex'' \<and> k \<noteq> ''count'' \<longrightarrow> getitem r k = getitem r' k"
      by (simp add: same)
    have 2: "\<forall>r \<in> set rs.
            getitem r ''typeName'' = Some (Str table)
          \<and> getitem r ''service'' = Some (Str ''WFS'')
          \<and> getitem r ''version'' = Some (Str ''2.0.0'')
          \<and> getitem r ''request'' = Some (Str ''GetFeature'')
          \<and> getitem r ''outputFormat'' = Some (Str ''json'')
          \<and> getitem r ''SRSNAME'' = Some (Str crs)"
      by (simp add: same base getitem_base_request)
    from 1 2 show ?thesis by blast
  qed
qed

theorem requests_share_parameters_witness:
  "validate_name (example_env 25000) ''whse.t'' = Inr ''WHSE.T''
   \<and> get_count (example_env 25000) ''WHSE.T'' None = Inr 25000
   \<and> get_schema (example_env 25000) (''pub:'' @ ''WHSE.T'') = Inr example_schema
   \<and> (\<exists>rs.
       request_dicts (example_env 25000) ''whse.t'' None ''epsg:4326'' None ''EPSG:3005'' None None 10000
         = Inr rs
     \<and> length rs = 3
     \<and> (\<forall>r \<in> set rs. \<forall>r' \<in> set rs. \<forall>k.
            k \<noteq> ''startIndex'' \<and> k \<noteq> ''count'' \<longrightarrow> getitem r k = getitem r' k)
     \<and> (\<forall>r \<in> set rs.
            getitem r ''typeName'' = Some (Str ''WHSE.T'')
          \<and> getitem r ''service'' = Some (Str ''WFS'')
          \<and> getitem r ''version'' = Some (Str ''2.0.0'')
          \<and> getitem r ''request'' = Some (Str ''GetFeature'')
          \<and> getitem r ''outputFormat'' = Some (Str ''json'')
          \<and> getitem r ''SRSNAME'' = Some (Str ''epsg:4326'')))"
proof -
  obtain rs where
    plan: "request_dicts (example_env 25000) ''whse.t'' None ''epsg:4326'' None ''EPSG:3005'' None None 10000
         = Inr rs"
    and len: "length rs = 3"
    using example_plan_three by (metis length_Cons list.size(3) numeral_3_eq_3)
  note c = requests_share_parameters [OF example_validate example_count [of 25000 None] example_get_schema plan]
  show ?thesis
    using example_validate [of 25000] example_count [of 25000 None] example_get_schema [of 25000]
      plan len c
    by blast
qed

text \<open>
  Claim C7, as amended. When the count request is answered with a status from 400 to
  599, \<^verbatim>\<open>get_count\<close> does not let the \<^verbatim>\<open>HTTPError\<close> of \<^verbatim>\<open>raise_for_status\<close> out: it raises
  \<^verbatim>\<open>SystemExit\<close> carrying that error.
\<close>

theorem get_count_status_failure_exits:
  assumes "validate_name env dataset = Inr table"
    and "requests_get env WFS_URL (hits_payload table query) = Response status body"
    and "400 \<le> status" and "status < 600"
  shows "get_count env dataset query = Inl (SystemExit (HTTPError status))"
  using assms by (simp add: get_count_def raise_for_status_def)

theorem get_count_status_failure_exits_witness:
  "validate_name (outage_env (Response 503 [])) ''whse.t'' = Inr ''WHSE.T''
   \<and> requests_get (outage_env (Response 503 [])) WFS_URL (hits_payload ''WHSE.T'' None) = Response 503 []
   \<and> (400::nat) \<le> 503 \<and> (503::nat) < 600
   \<and> get_count (outage_env (Response 503 [])) ''whse.t'' None = Inl (SystemExit (HTTPError 503))"
proof -
  have r: "requests_get (outage_env (Response 503 [])) WFS_URL (hits_payload ''WHSE.T'' None) = Response 503 []"
    by (simp add: outage_env_def example_env_def)
  from get_count_status_failure_exits [OF outage_validate r] outage_validate [of "Response 503 []"] r
  show ?thesis by simp
qed

text \<open>
  Claim C7 as stated also covers a request that fails on the network. The handler of
  \<^verbatim>\<open>get_count\<close> names \<^verbatim>\<open>HTTPError\<close> only, so a \<^verbatim>\<open>ConnectionError\<close> of \<^verbatim>\<open>requests.get\<close>
  leaves the function as the exception it is.
\<close>

theorem get_count_connection_error_propagates:
  "get_count (outage_env (Failed ConnectionError)) ''whse.t'' None
     = Inl (RequestException ConnectionError)"
  by (simp add: get_count_def outage_validate) (simp add: outage_env_def example_env_def)

section \<open>The loader\<close>

text \<open>
  Claim C6. The normalisation of a frame (lines 171--184) is a function of the frame: it
  keeps the columns and the attribute values of every row, turns the geometry of a row
  into a one-element \<^verbatim>\<open>MultiPoint\<close>, \<^verbatim>\<open>MultiLineString\<close> or \<^verbatim>\<open>MultiPolygon\<close> when it is a
  \<^verbatim>\<open>Point\<close>, \<^verbatim>\<open>LineString\<close> or \<^verbatim>\<open>Polygon\<close>, and leaves a multi-part geometry, a collection
  and a missing geometry as they are. Normalising a normalised frame changes nothing.
\<close>

theorem normalize_frame_multi_idempotent:
  "columns (normalize_frame df) = columns df
   \<and> map cells (rows (normalize_frame df)) = map cells (rows df)
   \<and> map geom (rows (normalize_frame df)) =
       map (\<lambda>r. case geom r of
                   None \<Rightarrow> None
                 | Some (Point c) \<Rightarrow> Some (MultiPoint [c])
                 | Some (LineString cs) \<Rightarrow> Some (MultiLineString [cs])
                 | Some (Polygon rings) \<Rightarrow> Some (MultiPolygon [rings])
                 | Some (MultiPoint cs) \<Rightarrow> Some (MultiPoint cs)
                 | Some (MultiLineString ls) \<Rightarrow> Some (MultiLineString ls)
                 | Some (MultiPolygon ps) \<Rightarrow> Some (MultiPolygon ps)
                 | Some (GeometryCollection gs) \<Rightarrow> Some (GeometryCollection gs))
           (rows df)
   \<and> normalize_frame (normalize_frame df) = normalize_frame df"
proof -
  have c: "columns (normalize_frame df) = columns df"
    by (simp add: normalize_frame_rows)
  have a: "map cells (rows (normalize_frame df)) = map cells (rows df)"
    by (simp add: normalize_frame_rows comp_def)
  have g: "map geom (rows (normalize_frame df)) =
       map (\<lambda>r. case geom r of
                   None \<Rightarrow> None
                 | Some (Point c) \<Rightarrow> Some (MultiPoint [c])
                 | Some (LineString cs) \<Rightarrow> Some (MultiLineString [cs])
                 | Some (Polygon rings) \<Rightarrow> Some (MultiPolygon [rings])
                 | Some (MultiPoint cs) \<Rightarrow> Some (MultiPoint cs)
                 | Some (MultiLineString ls) \<Rightarrow> Some (MultiLineString ls)
                 | Some (MultiPolygon ps) \<Rightarrow> Some (MultiPolygon ps)
                 | Some (GeometryCollection gs) \<Rightarrow> Some (GeometryCollection gs))
           (rows df)"
    by (simp add: normalize_frame_rows comp_def cast_one)
  have i: "normalize_frame (normalize_frame df) = normalize_frame df"
    by (simp add: normalize_frame_rows comp_def cast_one_idem)
  from c a g i show ?thesis by blast
qed

theorem normalize_frame_multi_idempotent_witness:
  "map geom (rows (normalize_frame example_frame)) =
     [Some (MultiPoint [[1, 2]]), None, Some (MultiPoint [[3, 4], [5, 6]]),
      Some (MultiLineString [[[0, 0], [1, 1]]]),
      Some (MultiPolygon [[[[0, 0], [1, 0], [1, 1], [0, 0]]]])]
   \<and> normalize_frame (normalize_frame example_frame) = normalize_frame example_frame"
  using normalize_frame_multi_idempotent [of example_frame] by (simp add: example_frame_def)

text \<open>
  Claim C8, as amended. The requests are planned (lines 64--70) before the table is
  looked for (lines 75--80). An invocation with \<^verbatim>\<open>append=True\<close> whose target table is not
  among the tables of the database ends in an exception, and until then it has
  downloaded no features (no \<^verbatim>\<open>make_requests\<close>) and has not read the columns of a table.
  When the requests were planned without an exception, the exception is the
  \<^verbatim>\<open>ValueError\<close> that the table does not exist, raised right after the tables were
  listed. When the table exists, reading its columns is the next thing the loader does.
  The name is taken to validate, to split into schema and table, and the database to
  connect.
\<close>

theorem append_missing_table_fails_before_fetch:
  assumes "validate_name (wfs env) dataset0 = Inr dataset"
    and "target_names dataset schema table = Inr (schema_name, table_name)"
    and "connect env db_url = Inr db"
    and "R = bc2pg env dataset0 db_url table schema geometry_type query count sortby primary_key
           timestamp schema_only True"
    and "P = define_requests (wfs env) dataset query ''epsg:3005'' None ''EPSG:3005''
           count sortby 10000"
  shows "(schema_name @ ''.'' @ table_name \<notin> set (tables db) \<longrightarrow>
            (\<exists>e. snd R = Inl e)
          \<and> (\<forall>url. MakeRequests url \<notin> set (fst R))
          \<and> (\<forall>s t. GetColumns s t \<notin> set (fst R))
          \<and> (\<forall>urls. P = Inr urls \<longrightarrow>
                R = ([Connect db_url, PlanRequests dataset, ListTables],
                     Inl (ValueError (schema_name @ ''.'' @ table_name
                                        @ '' does not exist, nothing to append to'')))))
     \<and> (schema_name @ ''.'' @ table_name \<in> set (tables db) \<longrightarrow>
          (\<forall>urls. P = Inr urls \<longrightarrow>
             take 4 (fst R) =
               [Connect db_url, PlanRequests dataset, ListTables,
                GetColumns schema_name table_name]))"
proof (intro conjI impI allI)
  assume missing: "schema_name @ ''.'' @ table_name \<notin> set (tables db)"
  have cases: "(\<exists>e. R = ([Connect db_url, PlanRequests dataset], Inl e))
      \<or> R = ([Connect db_url, PlanRequests dataset, ListTables],
                     Inl (ValueError (schema_name @ ''.'' @ table_name
                                        @ '' does not exist, nothing to append to'')))"
  proof (cases P)
    case (Inl e)
    then have "R = ([Connect db_url, PlanRequests dataset], Inl e)"
      unfolding assms(4) bc2pg_def using assms(5)
      by (simp add: assms(1-3) bind_lift_Inr bind_emit bind_lift_Inl raise_def)
    then show ?thesis by blast
  next
    case (Inr urls)
    then have "define_requests (wfs env) dataset query ''epsg:3005'' None ''EPSG:3005''
           count sortby 10000 = Inr urls" using assms(5) by simp
    from bc2pg_append(1) [OF assms(1-3) this missing]
    show ?thesis unfolding assms(4) by blast
  qed
  from cases show "\<exists>e. snd R = Inl e" by auto
  from cases show "MakeRequests url \<notin> set (fst R)" for url by auto
  from cases show "GetColumns s t \<notin> set (fst R)" for s t by auto
  show "R = ([Connect db_url, PlanRequests dataset, ListTables],
                     Inl (ValueError (schema_name @ ''.'' @ table_name
                                        @ '' does not exist, nothing to append to'')))"
    if "P = Inr urls" for urls
  proof -
    from that have "define_requests (wfs env) dataset query ''epsg:3005'' None ''EPSG:3005''
           count sortby 10000 = Inr urls" using assms(5) by simp
    from bc2pg_append(1) [OF assms(1-3) this missing]
    show ?thesis unfolding assms(4) .
  qed
next
  fix urls
  assume present: "schema_name @ ''.'' @ table_name \<in> set (tables db)" and "P = Inr urls"
  then have "define_requests (wfs env) dataset query ''epsg:3005'' None ''EPSG:3005''
           count sortby 10000 = Inr urls" using assms(5) by simp
  from bc2pg_append(2) [OF assms(1-3) this present]
  show "take 4 (fst R) =
               [Connect db_url, PlanRequests dataset, ListTables,
                GetColumns schema_name table_name]"
    unfolding assms(4) .
qed

theorem append_missing_table_fails_before_fetch_witness:
  "validate_name (wfs (example_loader 7 mixed_frame)) ''whse.t'' = Inr ''WHSE.T''
   \<and> target_names ''WHSE.T'' None (Some ''missing'') = Inr (''whse'', ''missing'')
   \<and> connect (example_loader 7 mixed_frame) ''postgresql://db'' = Inr example_db
   \<and> ''whse'' @ ''.'' @ ''missing'' \<notin> set (tables example_db)
   \<and> bc2pg (example_loader 7 mixed_frame) ''whse.t'' ''postgresql://db'' (Some ''missing'') None
        None None None None None True False True =
       ([Connect ''postgresql://db'', PlanRequests ''WHSE.T'', ListTables],
        Inl (ValueError (''whse'' @ ''.'' @ ''missing'' @ '' does not exist, nothing to append to'')))"
proof -
  have t: "target_names ''WHSE.T'' None (Some ''missing'') = Inr (''whse'', ''missing'')"
    by (simp add: target_names_def unpack2_def lower_def lower_char_def truthy_str_def)
  have m: "''whse'' @ ''.'' @ ''missing'' \<notin> set (tables example_db)"
    by (simp add: example_tables)
  note c = append_missing_table_fails_before_fetch [OF example_loader_validate t example_loader_fields(1) refl refl,
      of 7 mixed_frame "''postgresql://db''" None None None None None True False]
  from c m example_loader_plan [of mixed_frame]
  have "bc2pg (example_loader 7 mixed_frame) ''whse.t'' ''postgresql://db'' (Some ''missing'') None
        None None None None None True False True =
       ([Connect ''postgresql://db'', PlanRequests ''WHSE.T'', ListTables],
        Inl (ValueError (''whse'' @ ''.'' @ ''missing'' @ '' does not exist, nothing to append to'')))"
    by blast
  with example_loader_validate [of 7 mixed_frame] t example_loader_fields(1) [of 7 mixed_frame] m
  show ?thesis by blast
qed

text \<open>
  Claim C8 as stated has every append to a missing table end in the error that the
  table is missing. \<^verbatim>\<open>define_requests\<close> runs first and asks the service for the number
  of features: when that request is answered with the status 503, \<^verbatim>\<open>get_count\<close> raises
  \<^verbatim>\<open>SystemExit\<close>, and the loader ends there, before it has listed the tables.
\<close>

theorem append_missing_table_service_unavailable:
  "validate_name (wfs (outage_loader (Response 503 []))) ''whse.t'' = Inr ''WHSE.T''
   \<and> target_names ''WHSE.T'' None (Some ''missing'') = Inr (''whse'', ''missing'')
   \<and> connect (outage_loader (Response 503 [])) ''postgresql://db'' = Inr example_db
   \<and> ''whse'' @ ''.'' @ ''missing'' \<notin> set (tables example_db)
   \<and> bc2pg (outage_loader (Response 503 [])) ''whse.t'' ''postgresql://db'' (Some ''missing'') None
        None None None None None True False True =
       ([Connect ''postgresql://db'', PlanRequests ''WHSE.T''],
        Inl (SystemExit (HTTPError 503)))"
proof -
  have v: "validate_name (wfs (outage_loader (Response 503 []))) ''whse.t'' = Inr ''WHSE.T''"
    by (simp add: outage_loader_def outage_validate)
  have t: "target_names ''WHSE.T'' None (Some ''missing'') = Inr (''whse'', ''missing'')"
    by (simp add: target_names_def unpack2_def lower_def lower_char_def truthy_str_def)
  have c: "connect (outage_loader (Response 503 [])) ''postgresql://db'' = Inr example_db"
    by (simp add: outage_loader_def example_loader_def)
  have m: "''whse'' @ ''.'' @ ''missing'' \<notin> set (tables example_db)"
    by (simp add: example_tables)
  have p: "define_requests (wfs (outage_loader (Response 503 []))) ''WHSE.T'' None ''epsg:3005'' None
      ''EPSG:3005'' None None 10000 = Inl (SystemExit (HTTPError 503))"
    by (simp add: outage_loader_def outage_plan_exits)
  have "bc2pg (outage_loader (Response 503 [])) ''whse.t'' ''postgresql://db'' (Some ''missing'') None
        None None None None None True False True =
       ([Connect ''postgresql://db'', PlanRequests ''WHSE.T''],
        Inl (SystemExit (HTTPError 503)))"
    unfolding bc2pg_def
    by (simp add: v t c p bind_lift_Inr bind_emit bind_lift_Inl raise_def)
  with v t c m show ?thesis by blast
qed

text \<open>
  Claim C9, as amended. Creating a table with no geometry type supplied, the loader
  takes the type from a download: from the first request or, when the first feature of
  that download has no geometry, from the last request if it is another one. When
  this gives a type, it is the type of the first feature of that download with \<^verbatim>\<open>Z\<close>
  appended if that first feature has a third ordinate, and with nothing appended if
  it has none, whatever the later features hold. If the type in upper case is not one
  of \<^verbatim>\<open>SUPPORTED_TYPES\<close> the loader raises \<^verbatim>\<open>ValueError\<close> and creates no table; otherwise
  (the primary key, if given, being a column of the source) creating the table with
  this type is the next thing the loader does.
\<close>

theorem probed_geometry_type_first_feature:
  assumes "validate_name (wfs env) dataset0 = Inr dataset"
    and "target_names dataset schema table = Inr (schema_name, table_name)"
    and "connect env db_url = Inr db"
    and "define_requests (wfs env) dataset query ''epsg:3005'' None ''EPSG:3005''
           count sortby 10000 = Inr urls"
    and "get_table_definition env dataset = Inr td"
    and "td_schema td \<noteq> []"
    and "\<not> truthy_str geometry_type"
    and "resolve_geometry_type env urls geometry_type
           [Connect db_url, PlanRequests dataset, GetTableDefinition dataset]
         = (trace, Inr (Some resolved, probed))"
    and "R = bc2pg env dataset0 db_url table schema geometry_type query count sortby primary_key
           timestamp schema_only False"
  shows "(\<exists>url df r rest g.
            make_requests env url = Inr df \<and> rows df = r # rest \<and> geom r = Some g
          \<and> resolved = geom_type g @ (if has_z g then ''Z'' else [])
          \<and> (url = hd urls
               \<and> trace = [Connect db_url, PlanRequests dataset, GetTableDefinition dataset,
                          MakeRequests url]
             \<or> url = last urls
               \<and> trace = [Connect db_url, PlanRequests dataset, GetTableDefinition dataset,
                          MakeRequests (hd urls), MakeRequests url]))
     \<and> (upper resolved \<notin> set SUPPORTED_TYPES \<longrightarrow>
           R = (trace, Inl (ValueError ''Geometry type {geometry_type} is not supported'')))
     \<and> (upper resolved \<in> set SUPPORTED_TYPES
          \<and> \<not> (truthy_str primary_key
               \<and> upper (the primary_key)
                    \<notin> set (map (\<lambda>c. upper (column_name c)) (td_schema td))) \<longrightarrow>
           take (Suc (length trace)) (fst R) =
             trace @ [DefineTable schema_name table_name (upper resolved)])"
proof (intro conjI impI)
  from resolve_geometry_type_probed [OF assms(7,8)]
  show "\<exists>url df r rest g.
            make_requests env url = Inr df \<and> rows df = r # rest \<and> geom r = Some g
          \<and> resolved = geom_type g @ (if has_z g then ''Z'' else [])
          \<and> (url = hd urls
               \<and> trace = [Connect db_url, PlanRequests dataset, GetTableDefinition dataset,
                          MakeRequests url]
             \<or> url = last urls
               \<and> trace = [Connect db_url, PlanRequests dataset, GetTableDefinition dataset,
                          MakeRequests (hd urls), MakeRequests url])"
    by simp
next
  assume "upper resolved \<notin> set SUPPORTED_TYPES"
  from bc2pg_create_resolved(1) [OF assms(1-6) assms(8) this]
  show "R = (trace, Inl (ValueError ''Geometry type {geometry_type} is not supported''))"
    unfolding assms(9) .
next
  assume a: "upper resolved \<in> set SUPPORTED_TYPES
          \<and> \<not> (truthy_str primary_key
               \<and> upper (the primary_key)
                    \<notin> set (map (\<lambda>c. upper (column_name c)) (td_schema td)))"
  then have ok: "upper resolved \<in> set SUPPORTED_TYPES"
    and pk: "\<not> (truthy_str primary_key
               \<and> upper (the primary_key)
                    \<notin> set (map (\<lambda>c. upper (column_name c)) (td_schema td)))"
    by blast+
  from bc2pg_create_resolved(2) [OF assms(1-6) assms(8) ok pk]
  show "take (Suc (length trace)) (fst R) =
             trace @ [DefineTable schema_name table_name (upper resolved)]"
    unfolding assms(9) .
qed

theorem probed_geometry_type_first_feature_witness:
  "\<exists>url.
        define_requests (wfs (example_loader 7 polygonz_frame)) ''WHSE.T'' None ''epsg:3005'' None
          ''EPSG:3005'' None None 10000 = Inr [url]
      \<and> resolve_geometry_type (example_loader 7 polygonz_frame) [url] None
          [Connect ''postgresql://db'', PlanRequests ''WHSE.T'', GetTableDefinition ''WHSE.T'']
         = ([Connect ''postgresql://db'', PlanRequests ''WHSE.T'', GetTableDefinition ''WHSE.T'',
             MakeRequests url],
            Inr (Some ''PolygonZ'', Some polygonz_frame))
      \<and> upper ''PolygonZ'' \<notin> set SUPPORTED_TYPES
      \<and> bc2pg (example_loader 7 polygonz_frame) ''whse.t'' ''postgresql://db'' None None
          None None None None None True False False =
         ([Connect ''postgresql://db'', PlanRequests ''WHSE.T'', GetTableDefinition ''WHSE.T'',
           MakeRequests url],
          Inl (ValueError ''Geometry type {geometry_type} is not supported''))"
proof -
  let ?g = "Polygon [[[0, 0, 1], [1, 0, 1], [1, 1, 1], [0, 0, 1]]]"
  have res: "geom_type ?g @ (if has_z ?g then ''Z'' else []) = ''PolygonZ''"
    by (simp add: has_z_def)
  have uns: "upper ''PolygonZ'' \<notin> set SUPPORTED_TYPES"
    by (simp add: SUPPORTED_TYPES_def upper_def upper_char_def)
  have nt: "\<not> truthy_str None" by (simp add: truthy_str_def)
  obtain url where plan:
    "define_requests (wfs (example_loader 7 polygonz_frame)) ''WHSE.T'' None ''epsg:3005'' None
          ''EPSG:3005'' None None 10000 = Inr [url]"
    using example_loader_plan [of polygonz_frame] by blast
  have rows: "rows polygonz_frame =
      \<lparr> cells = [(''FEATURE_ID'', Num 1), (''NAME'', Str ''a'')], geom = Some ?g \<rparr> # []"
    by (simp add: polygonz_frame_def)
  have g: "geom \<lparr> cells = [(''FEATURE_ID'', Num 1), (''NAME'', Str ''a'')], geom = Some ?g \<rparr> = Some ?g"
    by simp
  have probe: "resolve_geometry_type (example_loader 7 polygonz_frame) [url] None
          [Connect ''postgresql://db'', PlanRequests ''WHSE.T'', GetTableDefinition ''WHSE.T'']
         = ([Connect ''postgresql://db'', PlanRequests ''WHSE.T'', GetTableDefinition ''WHSE.T'',
             MakeRequests url],
            Inr (Some ''PolygonZ'', Some polygonz_frame))"
    using resolve_probe [OF nt example_loader_fields(2) rows g, of 7 url "[]"
        "[Connect ''postgresql://db'', PlanRequests ''WHSE.T'', GetTableDefinition ''WHSE.T'']"]
    unfolding res by simp
  note c = probed_geometry_type_first_feature [OF example_loader_validate example_target
      example_loader_fields(1) plan example_loader_fields(3) example_td_nonempty nt probe refl,
      where primary_key = None and timestamp = True and schema_only = False]
  from c uns have "bc2pg (example_loader 7 polygonz_frame) ''whse.t'' ''postgresql://db'' None None
          None None None None None True False False =
         ([Connect ''postgresql://db'', PlanRequests ''WHSE.T'', GetTableDefinition ''WHSE.T'',
           MakeRequests url],
          Inl (ValueError ''Geometry type {geometry_type} is not supported''))"
    by blast
  with plan probe uns show ?thesis by blast
qed

text \<open>
  Claim C9 as stated appends \<^verbatim>\<open>Z\<close> if any feature of the probe has a third ordinate.
  \<^verbatim>\<open>df.has_z.unique()[0]\<close> is the value of the first feature only: for a download whose
  first point is flat and whose second point has a height the table is created as
  \<^verbatim>\<open>POINT\<close>.
\<close>

theorem second_feature_z_not_flagged:
  "geom (rows mixed_frame ! 1) = Some (Point [0, 0, 5])
   \<and> has_z (Point [0, 0, 5])
   \<and> fst (bc2pg (example_loader 7 mixed_frame) ''whse.t'' ''postgresql://db'' None None
          None None None None None True False False) ! 4 =
       DefineTable ''whse'' ''t'' ''POINT''"
proof -
  let ?g = "Point [0, 0]"
  have res: "''POINT'' = upper (geom_type ?g @ (if has_z ?g then ''Z'' else []))"
    by (simp add: has_z_def upper_def upper_char_def)
  have sup: "''POINT'' \<in> set SUPPORTED_TYPES"
    by (simp add: SUPPORTED_TYPES_def)
  have nt: "\<not> truthy_str None" by (simp add: truthy_str_def)
  have pk: "\<not> (truthy_str None
               \<and> upper (the None)
                    \<notin> set (map (\<lambda>c. upper (column_name c))
                        (td_schema \<lparr> td_schema = [\<lparr> column_name = ''FEATURE_ID'', data_type = ''NUMBER'' \<rparr>,
                        \<lparr> column_name = ''NAME'', data_type = ''VARCHAR2'' \<rparr>],
           comments = [] \<rparr>)))"
    by (simp add: truthy_str_def)
  obtain url where plan:
    "define_requests (wfs (example_loader 7 mixed_frame)) ''WHSE.T'' None ''epsg:3005'' None
          ''EPSG:3005'' None None 10000 = Inr [url]"
    using example_loader_plan [of mixed_frame] by blast
  have rows: "rows mixed_frame =
      \<lparr> cells = [(''FEATURE_ID'', Num 1), (''NAME'', Str ''a'')], geom = Some ?g \<rparr>
      # [\<lparr> cells = [(''FEATURE_ID'', Num 2), (''NAME'', Str ''b'')], geom = Some (Point [0, 0, 5]) \<rparr>]"
    by (simp add: mixed_frame_def)
  have g: "geom \<lparr> cells = [(''FEATURE_ID'', Num 1), (''NAME'', Str ''a'')], geom = Some ?g \<rparr> = Some ?g"
    by simp
  from bc2pg_create_probe(2) [OF example_loader_validate example_target example_loader_fields(1) plan
      example_loader_fields(3) example_td_nonempty nt example_loader_fields(2) rows g res sup pk]
  have "take 5 (fst (bc2pg (example_loader 7 mixed_frame) ''whse.t'' ''postgresql://db'' None None
          None None None None None True False False)) ! 4 = DefineTable ''whse'' ''t'' ''POINT''"
    by simp
  then have 1: "fst (bc2pg (example_loader 7 mixed_frame) ''whse.t'' ''postgresql://db'' None None
          None None None None None True False False) ! 4 = DefineTable ''whse'' ''t'' ''POINT''"
    by simp
  have 2: "geom (rows mixed_frame ! 1) = Some (Point [0, 0, 5])"
    by (simp add: mixed_frame_def)
  have 3: "has_z (Point [0, 0, 5])"
    by (simp add: has_z_def)
  from 1 2 3 show ?thesis by blast
qed

end
